theory Spec2Isabelle
  imports Complex_Main
begin

section \<open>Data model (meals/models.py)\<close>

text \<open>
  The two Django models of the meals application, as records. Columns that no modelled
  operation reads or writes (names, descriptions, images, addresses, contact numbers,
  the OTP and e-mail dispatch flags of a claim) are left out. A primary key is \<open>None\<close> until the
  row has been inserted. Points in time are integers (seconds on one common time line);
  Python floats and the six-place decimals of the coordinate columns are idealised as
  real numbers, so rounding is not modelled.
\<close>

type_synonym user_id = nat
type_synonym timestamp = int

datatype claim_status = Pending | Confirmed | Cancelled | Collected

record meal =
  meal_pk :: "int option"
  quantity :: int
  original_quantity :: int
  serving_date :: int
  serving_time :: int
  latitude :: "real option"
  longitude :: "real option"
  proximity_radius :: real
  provider :: user_id
  is_active :: bool
  is_expired :: bool
  created_at :: "timestamp option"
  updated_at :: "timestamp option"

record claim =
  claim_pk :: "int option"
  claim_meal :: int
  beneficiary :: user_id
  quantity_claimed :: int
  status :: claim_status
  otp_verified :: bool
  otp_verified_at :: "timestamp option"
  confirmation_code :: "string option"
  collected_at :: "timestamp option"
  claimed_at :: "timestamp option"
  claim_updated_at :: "timestamp option"

text \<open>
  The database: the two tables as lists of rows, and the counters from which the
  auto-incremented primary keys are drawn.
\<close>

record db =
  db_meals :: "meal list"
  db_claims :: "claim list"
  meal_seq :: int
  claim_seq :: int

text \<open>\<open>Meal.objects.get(id=k)\<close>; \<open>None\<close> stands for \<open>Meal.DoesNotExist\<close>.\<close>

definition get_meal :: "db \<Rightarrow> int \<Rightarrow> meal option" where
  "get_meal d k = find (\<lambda>r. meal_pk r = Some k) (db_meals d)"

section \<open>Saving a meal and the expiry check (Meal.save, Meal.check_expired)\<close>

text \<open>
  What \<open>super().save()\<close> does for a meal: a meal without primary key is inserted under the
  next key, with \<open>created_at\<close> (auto\_now\_add) and \<open>updated_at\<close> (auto\_now) set to the
  current time; a meal with a primary key overwrites its row, or is inserted under that
  key when no such row exists, and \<open>updated_at\<close> is set to the current time. The saved
  object is returned with the new database.
\<close>

definition meal_super_save :: "timestamp \<Rightarrow> meal \<Rightarrow> db \<Rightarrow> meal \<times> db" where
  "meal_super_save now self d =
     (case meal_pk self of
        None \<Rightarrow>
          let k = meal_seq d + 1;
              row = self\<lparr>meal_pk := Some k, created_at := Some now, updated_at := Some now\<rparr>
          in (row, d\<lparr>db_meals := row # db_meals d, meal_seq := k\<rparr>)
      | Some k \<Rightarrow>
          let row = self\<lparr>updated_at := Some now\<rparr>
          in (case get_meal d k of
                None \<Rightarrow>
                  (row\<lparr>created_at := Some now\<rparr>,
                   d\<lparr>db_meals := row\<lparr>created_at := Some now\<rparr> # db_meals d,
                     meal_seq := max k (meal_seq d)\<rparr>)
              | Some _ \<Rightarrow>
                  (row,
                   d\<lparr>db_meals :=
                       map (\<lambda>r. if meal_pk r = Some k then row else r) (db_meals d)\<rparr>)))"

text \<open>\<open>Meal.save(self)\<close>.\<close>

definition meal_save :: "timestamp \<Rightarrow> meal \<Rightarrow> db \<Rightarrow> meal \<times> db" where
  "meal_save now self d =
     (let self1 = (if meal_pk self = None
                   then self\<lparr>original_quantity := quantity self\<rparr> else self);
          self2 = (if quantity self1 \<le> 0 then self1\<lparr>is_active := False\<rparr> else self1)
      in meal_super_save now self2 d)"

text \<open>
  \<open>datetime.combine(self.serving_date, self.serving_time)\<close>, made aware: the date counts
  days and the time counts seconds of the day, on the time line of \<open>timezone.now()\<close>.
\<close>

definition serving_datetime :: "meal \<Rightarrow> timestamp" where
  "serving_datetime self = serving_date self * 86400 + serving_time self"

text \<open>
  \<open>Meal.check_expired(self)\<close>: the value returned, the meal object after the call and the
  database after the call. The clock is read once per call.
\<close>

definition check_expired :: "timestamp \<Rightarrow> meal \<Rightarrow> db \<Rightarrow> bool \<times> meal \<times> db" where
  "check_expired now self d =
     (if now > serving_datetime self
      then (let (self', d') = meal_save now (self\<lparr>is_expired := True, is_active := False\<rparr>) d
            in (True, self', d'))
      else (False, self, d))"

section \<open>Geospatial filter (Meal.distance_from, Meal.is_within_proximity)\<close>

text \<open>
  Python's truth value of a nullable \<open>Decimal\<close> column: \<open>None\<close> and a decimal equal to
  zero are both false.
\<close>

definition decimal_truthy :: "real option \<Rightarrow> bool" where
  "decimal_truthy d = (case d of None \<Rightarrow> False | Some x \<Rightarrow> x \<noteq> 0)"

definition radians :: "real \<Rightarrow> real" where
  "radians x = x * (pi / 180)"

text \<open>
  \<open>Meal.distance_from(self, lat, lon)\<close>. The guard \<open>not self.latitude or not self.longitude\<close>
  short-circuits, which the nested conditionals follow.
\<close>

definition distance_from :: "meal \<Rightarrow> real \<Rightarrow> real \<Rightarrow> real option" where
  "distance_from self lat lon =
     (if \<not> decimal_truthy (latitude self) then None
      else if \<not> decimal_truthy (longitude self) then None
      else
        let lat1 = radians (the (latitude self));
            lon1 = radians (the (longitude self));
            lat2 = radians lat;
            lon2 = radians lon;
            dlat = lat2 - lat1;
            dlon = lon2 - lon1;
            a = (sin (dlat / 2))\<^sup>2 + cos lat1 * cos lat2 * (sin (dlon / 2))\<^sup>2;
            c = 2 * arcsin (sqrt a);
            r = 6371
        in Some (c * r))"

text \<open>\<open>Meal.is_within_proximity(self, lat, lon)\<close>: the radius is the meal's own column.\<close>

definition is_within_proximity :: "meal \<Rightarrow> real \<Rightarrow> real \<Rightarrow> bool" where
  "is_within_proximity self lat lon =
     (case distance_from self lat lon of
        None \<Rightarrow> True
      | Some distance \<Rightarrow> distance \<le> proximity_radius self)"

text \<open>
  The location filter of \<open>MealViewSet.get_queryset\<close> (meals/api\_view.py): when the query
  carries \<open>lat\<close> and \<open>lng\<close>, the meals that pass \<open>is_within_proximity\<close> are kept.
\<close>

definition location_filter :: "meal list \<Rightarrow> real \<Rightarrow> real \<Rightarrow> meal list" where
  "location_filter queryset lat lng = filter (\<lambda>m. is_within_proximity m lat lng) queryset"

text \<open>
  The Haversine great-circle distance as the specification words it: two coordinates in
  degrees, a spherical Earth of radius 6371 km. It is the reference that
  \<open>distance_from\<close> is compared with.
\<close>

definition spec_haversine_km :: "real \<Rightarrow> real \<Rightarrow> real \<Rightarrow> real \<Rightarrow> real" where
  "spec_haversine_km lat_a lon_a lat_b lon_b =
     6371 * (2 * arcsin (sqrt ((sin ((radians lat_b - radians lat_a) / 2))\<^sup>2
        + cos (radians lat_a) * cos (radians lat_b)
          * (sin ((radians lon_b - radians lon_a) / 2))\<^sup>2)))"

section \<open>Nearby search (Meal.get\_nearby\_meals)\<close>

datatype py_error = ZeroDivisionError | TypeError

text \<open>
  The comparisons of the bounding-box query on a nullable column: a row whose column is
  NULL satisfies neither of them.
\<close>

definition column_gte :: "real option \<Rightarrow> real \<Rightarrow> bool" where
  "column_gte col bound = (case col of None \<Rightarrow> False | Some v \<Rightarrow> bound \<le> v)"

definition column_lte :: "real option \<Rightarrow> real \<Rightarrow> bool" where
  "column_lte col bound = (case col of None \<Rightarrow> False | Some v \<Rightarrow> v \<le> bound)"

text \<open>
  Two values in \<open>get_nearby_meals\<close> depend on rounding and are inputs of the model: the
  float that \<open>cos(radians(float(lat)))\<close> evaluates to, and the decimal into which the
  ORM turns the float bound of a lookup on the coordinate columns (\<open>DecimalField\<close> with
  \<open>max_digits=9\<close>).
\<close>

record float_ops =
  float_cos_radians :: "real \<Rightarrow> real"
  decimal_bound :: "real \<Rightarrow> real"

text \<open>
  \<open>Meal.get_nearby_meals(cls, lat, lon, radius_km)\<close> over the rows \<open>objects\<close> of the meal
  table. Python raises \<open>ZeroDivisionError\<close> when the divisor \<open>111 * cos(radians(lat))\<close>
  is zero. \<open>nearby.sort(key=...)\<close> compares the distances as soon as there are two
  entries and raises when one of them is \<open>None\<close>; the sort is stable.
\<close>

definition get_nearby_meals ::
  "float_ops \<Rightarrow> meal list \<Rightarrow> real \<Rightarrow> real \<Rightarrow> real
     \<Rightarrow> py_error + (meal \<times> real option) list" where
  "get_nearby_meals fl objects lat lon radius_km =
     (if 111 * float_cos_radians fl lat = 0 then Inl ZeroDivisionError
      else
        let lat_offset = radius_km / 111;
            lon_offset = radius_km / (111 * float_cos_radians fl lat);
            meals = filter (\<lambda>m. is_active m \<and> is_expired m = False
                              \<and> column_gte (latitude m) (decimal_bound fl (lat - lat_offset))
                              \<and> column_lte (latitude m) (decimal_bound fl (lat + lat_offset))
                              \<and> column_gte (longitude m) (decimal_bound fl (lon - lon_offset))
                              \<and> column_lte (longitude m) (decimal_bound fl (lon + lon_offset)))
                      objects;
            nearby = map (\<lambda>meal. (meal, distance_from meal lat lon))
                       (filter (\<lambda>meal. is_within_proximity meal lat lon) meals)
        in if 2 \<le> length nearby \<and> list_ex (\<lambda>x. snd x = None) nearby then Inl TypeError
           else Inr (sort_key (\<lambda>x. the (snd x)) nearby))"

section \<open>Strings\<close>

text \<open>
  The string operations of Python that the views use, on ASCII text: \<open>str.upper\<close>,
  \<open>str.strip\<close> (which removes the white space characters 9 to 13, 28 to 31 and 32),
  \<open>str.isdigit\<close>, and the decimal rendering of an integer in an f-string.
\<close>

definition ascii_uppercase :: string where
  "ascii_uppercase = ''ABCDEFGHIJKLMNOPQRSTUVWXYZ''"

definition ascii_lowercase :: string where
  "ascii_lowercase = ''abcdefghijklmnopqrstuvwxyz''"

definition digits :: string where
  "digits = ''0123456789''"

definition py_upper :: "string \<Rightarrow> string" where
  "py_upper s =
     map (\<lambda>c. case map_of (zip ascii_lowercase ascii_uppercase) c of
                 None \<Rightarrow> c | Some u \<Rightarrow> u) s"

definition py_isspace :: "char \<Rightarrow> bool" where
  "py_isspace c = (c \<in> set [CHR 0x09, CHR 0x0A, CHR 0x0B, CHR 0x0C, CHR 0x0D,
                              CHR 0x1C, CHR 0x1D, CHR 0x1E, CHR 0x1F, CHR 0x20])"

definition py_strip :: "string \<Rightarrow> string" where
  "py_strip s = rev (dropWhile py_isspace (rev (dropWhile py_isspace s)))"

definition py_isdigit :: "char \<Rightarrow> bool" where
  "py_isdigit c = (c \<in> set digits)"

function str_nat :: "nat \<Rightarrow> string" where
  "str_nat n = (if n < 10 then [digits ! n] else str_nat (n div 10) @ [digits ! (n mod 10)])"
  by pat_completeness auto
termination
  by (relation "measure id") auto

declare str_nat.simps [simp del]

definition str_int :: "int \<Rightarrow> string" where
  "str_int i = (if i < 0 then ''-'' @ str_nat (nat (- i)) else str_nat (nat i))"

section \<open>Confirmation codes and saving a claim (MealClaim.save)\<close>

text \<open>
  Python's truth value of a nullable string: \<open>None\<close> and the empty string are false.
\<close>

definition str_truthy :: "string option \<Rightarrow> bool" where
  "str_truthy s = (case s of None \<Rightarrow> False | Some t \<Rightarrow> t \<noteq> [])"

text \<open>
  \<open>random.choices(population, k=k)\<close>: \<open>k\<close> draws with replacement. The random source is
  an input of the model, a sequence \<open>rnd\<close> of natural numbers; each draw is an index
  below the size of the population, taken here as the next number of the sequence modulo
  that size. The attempt number selects the part of the sequence that the call consumes.
\<close>

definition random_choices :: "string \<Rightarrow> nat \<Rightarrow> (nat \<Rightarrow> nat) \<Rightarrow> nat \<Rightarrow> string" where
  "random_choices population k rnd attempt =
     map (\<lambda>j. population ! (rnd (attempt * k + j) mod length population)) [0..<k]"

text \<open>\<open>MealClaim.objects.filter(confirmation_code=code).exists()\<close>.\<close>

definition code_exists :: "db \<Rightarrow> string \<Rightarrow> bool" where
  "code_exists d code = list_ex (\<lambda>r. confirmation_code r = Some code) (db_claims d)"

text \<open>
  \<open>MealClaim.generate_confirmation_code()\<close>: the loop over \<open>range(max_attempts)\<close> with
  \<open>max_attempts = 10\<close>, and the fallback \<open>f"CODE{int(time.time())}"\<close> after it.
\<close>

fun generate_loop :: "db \<Rightarrow> (nat \<Rightarrow> nat) \<Rightarrow> timestamp \<Rightarrow> nat \<Rightarrow> nat \<Rightarrow> string" where
  "generate_loop d rnd now attempt 0 = ''CODE'' @ str_int now"
| "generate_loop d rnd now attempt (Suc remaining) =
     (let code = random_choices (ascii_uppercase @ digits) 8 rnd attempt
      in if \<not> code_exists d code then code
         else generate_loop d rnd now (Suc attempt) remaining)"

definition generate_confirmation_code :: "db \<Rightarrow> (nat \<Rightarrow> nat) \<Rightarrow> timestamp \<Rightarrow> string" where
  "generate_confirmation_code d rnd now = generate_loop d rnd now 0 10"

text \<open>
  The constraints that the claim table enforces when a row is written: \<open>unique=True\<close> on
  \<open>confirmation_code\<close> (NULL is exempt) and \<open>unique_together = [meal, beneficiary]\<close>.
  A row conflicts with the claim being written when it is another row (another primary
  key) with the same code or the same pair. \<open>super().save()\<close> raises
  \<open>IntegrityError\<close> on a conflict; otherwise it inserts a claim without primary key
  under the next key with \<open>claimed_at\<close> (auto\_now\_add), overwrites the row of a claim
  that has one, and sets \<open>updated_at\<close> (auto\_now) in both cases.
\<close>

datatype db_error = IntegrityError

definition claim_conflict :: "claim \<Rightarrow> claim \<Rightarrow> bool" where
  "claim_conflict self r =
     (claim_pk r \<noteq> claim_pk self
      \<and> ((confirmation_code self \<noteq> None \<and> confirmation_code r = confirmation_code self)
         \<or> (claim_meal r = claim_meal self \<and> beneficiary r = beneficiary self)))"

text \<open>\<open>MealClaim.objects.get(id=k)\<close>; \<open>None\<close> stands for \<open>MealClaim.DoesNotExist\<close>.\<close>

definition get_claim :: "db \<Rightarrow> int \<Rightarrow> claim option" where
  "get_claim d k = find (\<lambda>r. claim_pk r = Some k) (db_claims d)"

definition claim_super_save :: "timestamp \<Rightarrow> claim \<Rightarrow> db \<Rightarrow> db_error + claim \<times> db" where
  "claim_super_save now self d =
     (if list_ex (claim_conflict self) (db_claims d) then Inl IntegrityError
      else
        (case claim_pk self of
           None \<Rightarrow>
             let k = claim_seq d + 1;
                 row = self\<lparr>claim_pk := Some k, claimed_at := Some now,
                         claim_updated_at := Some now\<rparr>
             in Inr (row, d\<lparr>db_claims := row # db_claims d, claim_seq := k\<rparr>)
         | Some k \<Rightarrow>
             let row = self\<lparr>claim_updated_at := Some now\<rparr>
             in (case get_claim d k of
                   None \<Rightarrow>
                     Inr (row\<lparr>claimed_at := Some now\<rparr>,
                          d\<lparr>db_claims := row\<lparr>claimed_at := Some now\<rparr> # db_claims d,
                            claim_seq := max k (claim_seq d)\<rparr>)
                 | Some _ \<Rightarrow>
                     Inr (row,
                          d\<lparr>db_claims :=
                              map (\<lambda>r. if claim_pk r = Some k then row else r)
                                (db_claims d)\<rparr>))))"

text \<open>\<open>MealClaim.save(self)\<close>.\<close>

definition claim_save ::
  "(nat \<Rightarrow> nat) \<Rightarrow> timestamp \<Rightarrow> claim \<Rightarrow> db \<Rightarrow> db_error + claim \<times> db" where
  "claim_save rnd now self d =
     (let self' =
        (if claim_pk self = None \<and> \<not> str_truthy (confirmation_code self)
         then self\<lparr>confirmation_code := Some (generate_confirmation_code d rnd now),
                status := Confirmed, otp_verified := True, otp_verified_at := Some now\<rparr>
         else self)
      in claim_super_save now self' d)"

text \<open>\<open>MealClaim.mark_as_collected(self)\<close>.\<close>

definition mark_as_collected ::
  "(nat \<Rightarrow> nat) \<Rightarrow> timestamp \<Rightarrow> claim \<Rightarrow> db \<Rightarrow> db_error + claim \<times> db" where
  "mark_as_collected rnd now self d =
     claim_save rnd now (self\<lparr>status := Collected, collected_at := Some now\<rparr>) d"

section \<open>The claim views (meals/views.py, MealClaimViewSet)\<close>

text \<open>
  A view takes the authenticated user (\<open>IsAuthenticated\<close> guards every action), the
  request data, the random source, the time of
  the request (the clock is read once per request) and the database, and returns the
  response with the database it leaves behind. A response is a success with its HTTP
  status and the claim it reports, or a failure with its HTTP status and its message.
  \<open>get_permissions\<close> decides the permission classes from the action alone: \<open>create\<close>
  is open to beneficiaries, every other action to any authenticated user.

  Request fields: an id field is absent (or null, or the empty string), a number, text
  that reads as a number, or other text; a quantity is absent, an integer (given as
  number or as text), a value that is no integer but that \<open>int()\<close> converts (1.5 and
  \<open>true\<close> are such values, carried with the result of \<open>int()\<close>), or anything on
  which \<open>int()\<close> raises; the optional \<open>status\<close> of a
  claim request is one of the four choices; the \<open>otp\<close> and \<open>code\<close> fields of a
  verification request are absent or text.
\<close>

datatype role = Beneficiary | Provider

record user =
  user_pk :: user_id
  user_role :: "role option"

datatype 'a response = Success nat 'a | Failure nat string

datatype id_field = Id_missing | Id_int int | Id_numeric_text int | Id_other_text

datatype qty_field = Qty_missing | Qty_int int | Qty_not_integer int | Qty_malformed

record claim_request =
  cr_meal :: id_field
  cr_quantity_claimed :: qty_field
  cr_status :: "claim_status option"

text \<open>\<open>not meal_id\<close>, \<open>not claim_id\<close>: absent values and the number 0 are false.\<close>

definition id_falsy :: "id_field \<Rightarrow> bool" where
  "id_falsy f = (case f of Id_missing \<Rightarrow> True | Id_int n \<Rightarrow> n = 0 | _ \<Rightarrow> False)"

text \<open>The number an id field denotes, when it denotes one.\<close>

definition id_number :: "id_field \<Rightarrow> int option" where
  "id_number f =
     (case f of Id_int n \<Rightarrow> Some n | Id_numeric_text n \<Rightarrow> Some n | _ \<Rightarrow> None)"

text \<open>\<open>int(data.get('quantity_claimed', 1))\<close>; \<open>None\<close> stands for ValueError or TypeError.\<close>

definition int_of_quantity :: "qty_field \<Rightarrow> int option" where
  "int_of_quantity f =
     (case f of Qty_missing \<Rightarrow> Some 1 | Qty_int q \<Rightarrow> Some q
      | Qty_not_integer q \<Rightarrow> Some q | Qty_malformed \<Rightarrow> None)"

text \<open>
  \<open>MealClaim.objects.filter(meal=meal, beneficiary=user,
  status__in=['pending', 'confirmed']).exists()\<close>.
\<close>

definition has_open_claim :: "db \<Rightarrow> int \<Rightarrow> user_id \<Rightarrow> bool" where
  "has_open_claim d meal_id uid =
     list_ex (\<lambda>r. claim_meal r = meal_id \<and> beneficiary r = uid
                  \<and> (status r = Pending \<or> status r = Confirmed)) (db_claims d)"

text \<open>The error text of the last handler of \<open>create\<close>.\<close>

definition unexpected :: string where
  "unexpected = ''An unexpected error occurred. Please try again.''"

text \<open>
  \<open>serializer.is_valid\<close> for a new claim (meals/serializers.py). The serializer reads the
  request data as the request sent it: the \<open>quantity_claimed\<close> field must be an integer
  of at least 1 and is 1 when absent, the \<open>meal\<close> field is resolved by primary key
  against the database as it is at that moment; then \<open>MealClaimSerializer.validate\<close>
  runs its checks in their order. The implicit validator for \<open>unique_together\<close> has no
  branch of its own: where it would refuse, the insert refuses with \<open>IntegrityError\<close>,
  and the view answers both in the same way.
\<close>

datatype validation_error = ValidationError string

definition serializer_quantity :: "qty_field \<Rightarrow> int option" where
  "serializer_quantity f =
     (case f of Qty_missing \<Rightarrow> Some 1
      | Qty_int q \<Rightarrow> (if q < 1 then None else Some q)
      | Qty_not_integer q \<Rightarrow> None
      | Qty_malformed \<Rightarrow> None)"

definition serializer_validate ::
  "timestamp \<Rightarrow> int \<Rightarrow> user_id \<Rightarrow> qty_field \<Rightarrow> db \<Rightarrow> (validation_error + unit) \<times> db" where
  "serializer_validate now meal_id uid raw_quantity d =
     (case serializer_quantity raw_quantity of
        None \<Rightarrow> (Inl (ValidationError ''A valid integer is required.''), d)
      | Some qty \<Rightarrow>
     (case get_meal d meal_id of
        None \<Rightarrow> (Inl (ValidationError ''Invalid pk - object does not exist.''), d)
      | Some meal \<Rightarrow>
          if \<not> is_active meal
          then (Inl (ValidationError ''This meal is no longer available''), d)
          else if is_expired meal
          then (Inl (ValidationError ''This meal has expired''), d)
          else
            (case check_expired now meal d of
               (True, _, d1) \<Rightarrow> (Inl (ValidationError ''This meal has expired''), d1)
             | (False, meal1, d1) \<Rightarrow>
                 if quantity meal1 < qty
                 then (Inl (ValidationError
                        (''Only '' @ str_int (quantity meal1) @ '' serving(s) available'')), d1)
                 else if has_open_claim d1 meal_id uid
                 then (Inl (ValidationError ''You have already claimed this meal''), d1)
                 else (Inr (), d1))))"

text \<open>
  \<open>MealClaimViewSet.create\<close>, behind its permission class \<open>IsBeneficiary\<close>;
  \<open>qty\<close> is the local \<open>quantity_claimed\<close> of the source.
  The view imports Django's \<open>ValidationError\<close>, so the
  one that \<open>is_valid(raise_exception=True)\<close> raises, which belongs to the REST
  framework, falls through to \<open>except Exception\<close>, like every other exception.
\<close>

definition create ::
  "user \<Rightarrow> claim_request \<Rightarrow> (nat \<Rightarrow> nat) \<Rightarrow> timestamp \<Rightarrow> db \<Rightarrow> claim response \<times> db" where
  "create u req rnd now d =
     (if user_role u \<noteq> Some Beneficiary
      then (Failure 403 ''Only beneficiaries can perform this action.'', d)
      else if id_falsy (cr_meal req) then (Failure 400 ''Meal ID is required'', d)
      else
        (case id_number (cr_meal req) of
           None \<Rightarrow> (Failure 500 unexpected, d)
         | Some meal_id \<Rightarrow>
        (case get_meal d meal_id of
           None \<Rightarrow> (Failure 404 ''Meal not found'', d)
         | Some meal \<Rightarrow>
        (case int_of_quantity (cr_quantity_claimed req) of
           None \<Rightarrow> (Failure 400 ''Invalid quantity'', d)
         | Some qty \<Rightarrow>
        (if qty < 1 then (Failure 400 ''Quantity must be at least 1'', d)
         else if \<not> is_active meal then (Failure 400 ''This meal is no longer available'', d)
         else if is_expired meal then (Failure 400 ''This meal has expired'', d)
         else
           (case check_expired now meal d of
              (True, _, d1) \<Rightarrow> (Failure 400 ''This meal has expired'', d1)
            | (False, meal1, d1) \<Rightarrow>
                if quantity meal1 < qty
                then (Failure 400
                       (''Only '' @ str_int (quantity meal1) @ '' servings available''), d1)
                else if has_open_claim d1 meal_id (user_pk u)
                then (Failure 400 ''You have already claimed this meal'', d1)
                else
                  (let meal2 = meal1\<lparr>quantity := quantity meal1 - qty\<rparr>;
                       meal3 = (if quantity meal2 = 0 then meal2\<lparr>is_active := False\<rparr>
                                else meal2);
                       (meal4, d2) = meal_save now meal3 d1
                   in case serializer_validate now meal_id (user_pk u)
                             (cr_quantity_claimed req) d2 of
                        (Inl _, d3) \<Rightarrow> (Failure 500 unexpected, d3)
                      | (Inr _, d3) \<Rightarrow>
                          (case claim_save rnd now
                                  \<lparr> claim_pk = None, claim_meal = meal_id,
                                    beneficiary = user_pk u,
                                    quantity_claimed = qty,
                                    status = (case cr_status req of None \<Rightarrow> Pending
                                              | Some st \<Rightarrow> st),
                                    otp_verified = False, otp_verified_at = None,
                                    confirmation_code = None, collected_at = None,
                                    claimed_at = None, claim_updated_at = None \<rparr> d3 of
                             Inl _ \<Rightarrow> (Failure 500 unexpected, d3)
                           | Inr (claim, d4) \<Rightarrow> (Success 201 claim, d4)))))))))"

record verify_request =
  vr_claim_id :: id_field
  vr_otp :: "string option"
  vr_code :: "string option"

text \<open>
  \<open>(request.data.get('otp') or request.data.get('code', '')).upper().strip()\<close>.
\<close>

definition submitted_code :: "verify_request \<Rightarrow> string" where
  "submitted_code req =
     py_strip (py_upper
       (if str_truthy (vr_otp req) then the (vr_otp req)
        else (case vr_code req of None \<Rightarrow> [] | Some c \<Rightarrow> c)))"

text \<open>\<open>MealClaimViewSet.verify_collection\<close>.\<close>

definition verify_collection ::
  "user \<Rightarrow> verify_request \<Rightarrow> (nat \<Rightarrow> nat) \<Rightarrow> timestamp \<Rightarrow> db \<Rightarrow> claim response \<times> db" where
  "verify_collection u req rnd now d =
     (let code = submitted_code req in
      if id_falsy (vr_claim_id req) then (Failure 400 ''Claim ID is required'', d)
      else if code = [] then (Failure 400 ''Verification code is required'', d)
      else
        (case id_number (vr_claim_id req) of
           None \<Rightarrow> (Failure 400 ''Invalid claim ID format'', d)
         | Some claim_id \<Rightarrow>
        (case get_claim d claim_id of
           None \<Rightarrow> (Failure 404 ''Claim not found'', d)
         | Some claim \<Rightarrow>
        (case get_meal d (claim_meal claim) of
           None \<Rightarrow> (Failure 500 ''An unexpected error occurred while verifying collection'', d)
         | Some meal \<Rightarrow>
            if provider meal \<noteq> user_pk u
            then (Failure 403 ''You can only verify collections for your own meals'', d)
            else if status claim = Collected
            then (Failure 400 ''This meal has already been collected'', d)
            else if status claim = Cancelled
            then (Failure 400 ''This claim has been cancelled'', d)
            else
              (case confirmation_code claim of
                 None \<Rightarrow>
                   (Failure 500 ''An unexpected error occurred while verifying collection'', d)
               | Some cc \<Rightarrow>
                   (let is_valid =
                      (if code = cc then True
                       else if code = take 4 cc then True
                       else (let otp_digits = take 4 (filter py_isdigit cc)
                             in if code = otp_digits then True else False))
                    in if is_valid
                       then (case claim_save rnd now
                                    (claim\<lparr>status := Collected, collected_at := Some now\<rparr>) d of
                               Inl _ \<Rightarrow>
                                 (Failure 500
                                   ''An unexpected error occurred while verifying collection'', d)
                             | Inr (claim', d') \<Rightarrow> (Success 200 claim', d'))
                       else (Failure 400 ''Invalid code. Please check and try again.'', d)))))))"

text \<open>
  \<open>MealClaimViewSet.get_queryset\<close> for an authenticated user; a user without profile
  gets the empty queryset.
\<close>

definition get_queryset :: "user \<Rightarrow> db \<Rightarrow> claim list" where
  "get_queryset u d =
     (case user_role u of
        None \<Rightarrow> []
      | Some Beneficiary \<Rightarrow> filter (\<lambda>r. beneficiary r = user_pk u) (db_claims d)
      | Some Provider \<Rightarrow>
          filter (\<lambda>r. case get_meal d (claim_meal r) of
                        None \<Rightarrow> False | Some m \<Rightarrow> provider m = user_pk u) (db_claims d))"

text \<open>
  \<open>MealClaimViewSet.mark_collected\<close>. The permission classes named in its decorator
  are not consulted, since \<open>get_permissions\<close> is overridden. \<open>get_object\<close> raises \<open>Http404\<close> for a key outside the queryset, which the view
  catches with every other exception.
\<close>

definition mark_collected ::
  "user \<Rightarrow> int \<Rightarrow> (nat \<Rightarrow> nat) \<Rightarrow> timestamp \<Rightarrow> db \<Rightarrow> claim response \<times> db" where
  "mark_collected u pk rnd now d =
     (case find (\<lambda>r. claim_pk r = Some pk) (get_queryset u d) of
        None \<Rightarrow> (Failure 500 ''An unexpected error occurred'', d)
      | Some claim \<Rightarrow>
     (case get_meal d (claim_meal claim) of
        None \<Rightarrow> (Failure 500 ''An unexpected error occurred'', d)
      | Some meal \<Rightarrow>
         if provider meal \<noteq> user_pk u
         then (Failure 403 ''You can only mark your own meal claims as collected'', d)
         else
           (case mark_as_collected rnd now claim d of
              Inl _ \<Rightarrow> (Failure 500 ''An unexpected error occurred'', d)
            | Inr (claim', d') \<Rightarrow> (Success 200 claim', d'))))"

section \<open>Invariants of the claim table\<close>

text \<open>
  The confirmation codes stored in the claim table (the column is nullable, NULLs are
  skipped), and the well-formedness of the table: primary keys are present, pairwise
  distinct and not above the sequence counter, and the stored codes are pairwise
  distinct, which is what \<open>unique=True\<close> on the column demands.
\<close>

definition stored_codes :: "db \<Rightarrow> string list" where
  "stored_codes d = List.map_filter confirmation_code (db_claims d)"

definition claims_wf :: "db \<Rightarrow> bool" where
  "claims_wf d =
     (distinct (map claim_pk (db_claims d))
      \<and> list_all (\<lambda>r. case claim_pk r of None \<Rightarrow> False | Some k \<Rightarrow> k \<le> claim_seq d)
            (db_claims d)
      \<and> distinct (stored_codes d))"

text \<open>Whether a claim for the pair of meal and beneficiary is stored, whatever its status.\<close>

definition pair_taken :: "db \<Rightarrow> int \<Rightarrow> user_id \<Rightarrow> bool" where
  "pair_taken d meal_id uid =
     list_ex (\<lambda>r. claim_meal r = meal_id \<and> beneficiary r = uid) (db_claims d)"

text \<open>The shape of a randomly drawn code: eight characters, each an upper-case letter or a digit.\<close>

definition is_random_code :: "string \<Rightarrow> bool" where
  "is_random_code s =
     (length s = 8 \<and> list_all (\<lambda>c. c \<in> set (ascii_uppercase @ digits)) s)"

section \<open>Concrete meals, claims, users and databases\<close>

text \<open>A meal used to instantiate the theorems below: located in Mumbai, three servings.\<close>

definition mumbai_meal :: meal where
  "mumbai_meal = \<lparr> meal_pk = Some 1, quantity = 3, original_quantity = 3,
     serving_date = 20000, serving_time = 43200,
     latitude = Some (19076 / 1000), longitude = Some (728777 / 10000),
     proximity_radius = 5, provider = 7, is_active = True, is_expired = False,
     created_at = Some 1000, updated_at = Some 1000 \<rparr>"

text \<open>
  A meal on the equator, a meal five degrees north of it, and a meal about 9 km north of
  the point (10, 10); all three keep the default proximity radius of 5 km.
\<close>

definition equator_meal :: meal where
  "equator_meal = mumbai_meal\<lparr>latitude := Some 0, longitude := Some 5\<rparr>"

definition north_meal :: meal where
  "north_meal = mumbai_meal\<lparr>latitude := Some 5, longitude := Some 5\<rparr>"

definition far_meal :: meal where
  "far_meal = mumbai_meal\<lparr>latitude := Some (1008 / 100), longitude := Some 10\<rparr>"

text \<open>A meal whose serving time has passed, alone in a database.\<close>

definition expired_meal :: meal where
  "expired_meal = mumbai_meal\<lparr>serving_date := 0, serving_time := 100\<rparr>"

definition small_db :: db where
  "small_db = \<lparr> db_meals = [expired_meal], db_claims = [], meal_seq = 1, claim_seq = 0 \<rparr>"

text \<open>A claim as the serializer hands it to \<open>save\<close>: no key, no code, status pending.\<close>

definition new_claim :: claim where
  "new_claim = \<lparr> claim_pk = None, claim_meal = 1, beneficiary = 3, quantity_claimed = 1,
     status = Pending, otp_verified = False, otp_verified_at = None,
     confirmation_code = None, collected_at = None, claimed_at = None,
     claim_updated_at = None \<rparr>"

text \<open>Users, databases and a stored claim on which the views are run below.\<close>

definition beneficiary_user :: user where
  "beneficiary_user = \<lparr> user_pk = 3, user_role = Some Beneficiary \<rparr>"

definition provider_user :: user where
  "provider_user = \<lparr> user_pk = 7, user_role = Some Provider \<rparr>"

definition last_serving_db :: db where
  "last_serving_db = \<lparr> db_meals = [mumbai_meal\<lparr>quantity := 1\<rparr>], db_claims = [],
     meal_seq = 1, claim_seq = 0 \<rparr>"

definition three_servings_db :: db where
  "three_servings_db = \<lparr> db_meals = [mumbai_meal], db_claims = [],
     meal_seq = 1, claim_seq = 0 \<rparr>"

definition confirmed_claim :: claim where
  "confirmed_claim = new_claim\<lparr>claim_pk := Some 1, status := Confirmed,
     otp_verified := True, otp_verified_at := Some 1500,
     confirmation_code := Some ''AB12CD34'', claimed_at := Some 1500,
     claim_updated_at := Some 1500\<rparr>"

definition claimed_db :: db where
  "claimed_db = \<lparr> db_meals = [mumbai_meal\<lparr>quantity := 2\<rparr>], db_claims = [confirmed_claim],
     meal_seq = 1, claim_seq = 1 \<rparr>"

text \<open>
  Claim tables in which the first draw of the identity source, respectively every draw
  of the constant source, is already stored.
\<close>

definition first_draw_claim :: claim where
  "first_draw_claim = confirmed_claim\<lparr>confirmation_code := Some ''ABCDEFGH''\<rparr>"

definition retry_db :: db where
  "retry_db = claimed_db\<lparr>db_claims := [first_draw_claim]\<rparr>"

definition all_a_claim :: claim where
  "all_a_claim = confirmed_claim\<lparr>confirmation_code := Some ''AAAAAAAA''\<rparr>"

definition exhausted_db :: db where
  "exhausted_db = claimed_db\<lparr>db_claims := [all_a_claim]\<rparr>"

section \<open>Properties of the geospatial filter\<close>

lemma spec_haversine_km_sym:
  "spec_haversine_km lat_a lon_a lat_b lon_b = spec_haversine_km lat_b lon_b lat_a lon_a"
proof -
  have flip: "sin ((x - y) / 2) ^ 2 = sin ((y - x) / 2) ^ 2" for x y :: real
  proof -
    have "(x - y) / 2 = - ((y - x) / 2)" by argo
    then have "sin ((x - y) / 2) = - sin ((y - x) / 2)" by (metis sin_minus)
    then show ?thesis by simp
  qed
  show ?thesis
    unfolding spec_haversine_km_def
    by (simp add: flip [of "radians lat_b" "radians lat_a"]
        flip [of "radians lon_b" "radians lon_a"] mult.commute)
qed

lemma spec_haversine_km_self: "spec_haversine_km lat lon lat lon = 0"
  by (simp add: spec_haversine_km_def)

lemma distance_from_present:
  assumes "latitude m = Some la" "la \<noteq> 0" "longitude m = Some lo" "lo \<noteq> 0"
  shows "distance_from m lat lon = Some (spec_haversine_km la lo lat lon)"
  using assms
  by (simp add: distance_from_def decimal_truthy_def spec_haversine_km_def Let_def mult.commute)

text \<open>
  C8. A meal that lacks a latitude or a longitude passes \<open>is_within_proximity\<close> for every
  query point and for every value of its proximity radius, zero and negative values
  included.
\<close>

theorem within_proximity_without_coordinates:
  assumes "latitude m = None \<or> longitude m = None"
  shows "is_within_proximity (m\<lparr>proximity_radius := r\<rparr>) lat lon"
  using assms
  by (auto simp: is_within_proximity_def distance_from_def decimal_truthy_def)

theorem within_proximity_without_coordinates_witness:
  "is_within_proximity (mumbai_meal\<lparr>latitude := None, proximity_radius := 0\<rparr>) 48 2"
proof -
  have "latitude (mumbai_meal\<lparr>latitude := None\<rparr>) = None
      \<or> longitude (mumbai_meal\<lparr>latitude := None\<rparr>) = None"
    by simp
  from within_proximity_without_coordinates [OF this, of 0 48 2]
  show ?thesis by simp
qed

text \<open>
  C9. A meal whose stored latitude or longitude is exactly 0 is handled as a meal without
  coordinates: \<open>distance_from\<close> gives \<open>None\<close>, \<open>is_within_proximity\<close> holds for every
  query point, and the location filter of the meal list keeps the meal wherever the
  query point lies.
\<close>

theorem zero_coordinate_treated_as_missing:
  assumes "latitude m = Some 0 \<or> longitude m = Some 0"
  shows "distance_from m lat lon = None
       \<and> is_within_proximity m lat lon
       \<and> (m \<in> set queryset \<longrightarrow> m \<in> set (location_filter queryset lat lon))"
  using assms
  by (auto simp: is_within_proximity_def distance_from_def decimal_truthy_def
      location_filter_def)

theorem zero_coordinate_treated_as_missing_witness:
  "distance_from (mumbai_meal\<lparr>latitude := Some 0\<rparr>) 48 2 = None
   \<and> is_within_proximity (mumbai_meal\<lparr>latitude := Some 0\<rparr>) 48 2
   \<and> mumbai_meal\<lparr>latitude := Some 0\<rparr>
       \<in> set (location_filter [mumbai_meal, mumbai_meal\<lparr>latitude := Some 0\<rparr>] 48 2)"
proof -
  have "latitude (mumbai_meal\<lparr>latitude := Some 0\<rparr>) = Some 0
      \<or> longitude (mumbai_meal\<lparr>latitude := Some 0\<rparr>) = Some 0"
    by simp
  from zero_coordinate_treated_as_missing [OF this,
      of 48 2 "[mumbai_meal, mumbai_meal\<lparr>latitude := Some 0\<rparr>]"]
  show ?thesis by simp
qed

lemma distance_from_symmetric_nonzero:
  assumes "latitude a = Some lat_a" "lat_a \<noteq> 0" "longitude a = Some lon_a" "lon_a \<noteq> 0"
    and "latitude b = Some lat_b" "lat_b \<noteq> 0" "longitude b = Some lon_b" "lon_b \<noteq> 0"
  shows "distance_from a lat_b lon_b = distance_from b lat_a lon_a"
    and "distance_from a lat_a lon_a = Some 0"
proof -
  have ab: "distance_from a lat_b lon_b = Some (spec_haversine_km lat_a lon_a lat_b lon_b)"
    using assms(1-4) by (rule distance_from_present)
  have ba: "distance_from b lat_a lon_a = Some (spec_haversine_km lat_b lon_b lat_a lon_a)"
    using assms(5-8) by (rule distance_from_present)
  show "distance_from a lat_b lon_b = distance_from b lat_a lon_a"
    using ab ba spec_haversine_km_sym [of lat_a lon_a lat_b lon_b] by simp
  show "distance_from a lat_a lon_a = Some 0"
    using distance_from_present [OF assms(1-4), of lat_a lon_a]
    by (simp add: spec_haversine_km_self)
qed

lemma meridian_distance:
  assumes "lat_b \<le> lat_a" "lat_a - lat_b \<le> 180"
  shows "spec_haversine_km lat_a lon lat_b lon = 6371 * (radians lat_a - radians lat_b)"
proof -
  let ?h = "(radians lat_a - radians lat_b) / 2"
  have h0: "0 \<le> ?h"
    using assms(1) pi_gt_zero unfolding radians_def by (simp add: field_simps)
  have "(lat_a - lat_b) * pi \<le> 180 * pi"
    using assms(2) pi_gt_zero by (intro mult_right_mono) simp_all
  then have h1: "?h \<le> pi / 2"
    unfolding radians_def by (simp add: field_simps)
  have flip: "(radians lat_b - radians lat_a) / 2 = - ?h" by argo
  have s0: "0 \<le> sin ?h"
    using h0 h1 pi_gt_zero by (intro sin_ge_zero) linarith+
  have "sqrt ((sin ((radians lat_b - radians lat_a) / 2))\<^sup>2
        + cos (radians lat_a) * cos (radians lat_b) * (sin ((radians lon - radians lon) / 2))\<^sup>2)
      = sin ?h"
    unfolding flip using s0 by simp
  moreover have "arcsin (sin ?h) = ?h"
    using h0 h1 pi_gt_zero by (intro arcsin_sin) linarith+
  ultimately show ?thesis
    unfolding spec_haversine_km_def by simp
qed

text \<open>
  C10. The guard of \<open>distance_from\<close> takes a stored coordinate of 0 for a missing one.
  For a meal on the equator at (0, 5) and a meal at (5, 5), both with their coordinates
  stored, the distance from the first meal to the position of the second is \<open>None\<close>,
  while the distance from the second meal to the position of the first is
  6371 * pi / 36 km (about 556 km); and the distance from the first meal to its own
  position is \<open>None\<close>, not 0.
\<close>

theorem distance_from_equator_not_symmetric:
  "latitude equator_meal = Some 0 \<and> longitude equator_meal = Some 5
   \<and> latitude north_meal = Some 5 \<and> longitude north_meal = Some 5
   \<and> distance_from equator_meal 5 5 = None
   \<and> distance_from north_meal 0 5 = Some (6371 * (pi / 36))
   \<and> distance_from equator_meal 0 5 = None"
proof -
  have "distance_from north_meal 0 5 = Some (spec_haversine_km 5 5 0 5)"
    by (rule distance_from_present) (simp_all add: north_meal_def)
  moreover have "spec_haversine_km 5 5 0 5 = 6371 * (radians 5 - radians 0)"
    by (rule meridian_distance) simp_all
  moreover have "6371 * (radians 5 - radians 0) = 6371 * (pi / 36)"
    by (simp add: radians_def)
  ultimately have "distance_from north_meal 0 5 = Some (6371 * (pi / 36))"
    by simp
  then show ?thesis
    by (simp add: equator_meal_def north_meal_def distance_from_def decimal_truthy_def)
qed

section \<open>Properties of the nearby search\<close>

lemma get_nearby_meals_single_miss:
  assumes "\<not> is_within_proximity m lat lon"
  shows "get_nearby_meals fl [m] lat lon radius_km
     = (if 111 * float_cos_radians fl lat = 0 then Inl ZeroDivisionError else Inr [])"
  using assms by (simp add: get_nearby_meals_def Let_def)

text \<open>
  C2. The exact filter of \<open>get_nearby_meals\<close> is \<open>is_within_proximity\<close>, which compares
  the distance with the proximity radius of the meal and never sees the query radius. An
  active, unexpired meal 6371 * pi / 2250 km (about 8.9 km) from the query point, with
  the default proximity radius of 5 km, is within a query radius of 12 km; the search
  does not return it, whatever the rounding of the bounding box: it returns the empty
  list, or raises where the divisor of the box is zero.
\<close>

theorem get_nearby_meals_ignores_query_radius:
  "is_active far_meal \<and> is_expired far_meal = False
   \<and> proximity_radius far_meal = 5
   \<and> distance_from far_meal 10 10 = Some (6371 * (pi / 2250))
   \<and> 6371 * (pi / 2250) \<le> 12
   \<and> get_nearby_meals fl [far_meal] 10 10 12
       = (if 111 * float_cos_radians fl 10 = 0 then Inl ZeroDivisionError else Inr [])"
proof -
  have d0: "distance_from far_meal 10 10 = Some (spec_haversine_km (1008 / 100) 10 10 10)"
    by (rule distance_from_present) (simp_all add: far_meal_def)
  have "spec_haversine_km (1008 / 100) 10 10 10 = 6371 * (radians (1008 / 100) - radians 10)"
    by (rule meridian_distance) simp_all
  also have "\<dots> = 6371 * (pi / 2250)"
    by (simp add: radians_def field_simps)
  finally have d: "distance_from far_meal 10 10 = Some (6371 * (pi / 2250))"
    using d0 by simp
  have le12: "6371 * (pi / 2250) \<le> 12"
    using pi_less_4 by simp
  have gt5: "5 < 6371 * (pi / 2250)"
    using pi_ge_two by simp
  have miss: "\<not> is_within_proximity far_meal 10 10"
    using gt5 unfolding is_within_proximity_def d by (simp add: far_meal_def mumbai_meal_def)
  have "get_nearby_meals fl [far_meal] 10 10 12
       = (if 111 * float_cos_radians fl 10 = 0 then Inl ZeroDivisionError else Inr [])"
    using miss by (rule get_nearby_meals_single_miss)
  moreover have "is_active far_meal \<and> is_expired far_meal = False
      \<and> proximity_radius far_meal = 5"
    by (simp add: far_meal_def mumbai_meal_def)
  ultimately show ?thesis using d le12 by simp
qed

section \<open>Properties of the expiry check\<close>

lemma find_map_replace:
  "find P xs = Some r0 \<Longrightarrow> P row \<Longrightarrow> find P (map (\<lambda>r. if P r then row else r) xs) = Some row"
  by (induction xs) (auto split: if_splits)

lemma meal_super_save_stored:
  assumes "meal_super_save now self d = (self', d')"
  shows "meal_pk self' \<noteq> None \<and> get_meal d' (the (meal_pk self')) = Some self'"
proof (cases "meal_pk self")
  case None
  with assms show ?thesis
    by (auto simp: meal_super_save_def Let_def get_meal_def)
next
  case (Some k)
  show ?thesis
  proof (cases "get_meal d k")
    case None
    with Some assms show ?thesis
      by (auto simp: meal_super_save_def Let_def get_meal_def)
  next
    case (Some r0)
    have "find (\<lambda>r. meal_pk r = Some k)
        (map (\<lambda>r. if meal_pk r = Some k then self\<lparr>updated_at := Some now\<rparr> else r) (db_meals d))
        = Some (self\<lparr>updated_at := Some now\<rparr>)"
      using Some \<open>meal_pk self = Some k\<close>
        find_map_replace [of "\<lambda>r. meal_pk r = Some k" "db_meals d" r0
          "self\<lparr>updated_at := Some now\<rparr>"]
      by (simp add: get_meal_def)
    with Some \<open>meal_pk self = Some k\<close> assms show ?thesis
      by (auto simp: meal_super_save_def Let_def get_meal_def)
  qed
qed

lemma meal_super_save_fields:
  assumes "meal_super_save now self d = (self', d')"
  shows "is_expired self' = is_expired self" "is_active self' = is_active self"
    "serving_date self' = serving_date self" "serving_time self' = serving_time self"
    "quantity self' = quantity self"
  using assms
  by (auto simp: meal_super_save_def Let_def split: option.splits)

lemma meal_save_stored:
  assumes "meal_save now self d = (self', d')"
  shows "meal_pk self' \<noteq> None \<and> get_meal d' (the (meal_pk self')) = Some self'"
  using assms meal_super_save_stored unfolding meal_save_def Let_def by blast

lemma meal_save_fields:
  assumes "meal_save now self d = (self', d')"
  shows "is_expired self' = is_expired self" "\<not> is_active self \<Longrightarrow> \<not> is_active self'"
    "serving_datetime self' = serving_datetime self"
    "quantity self' = quantity self"
  using assms
  by (auto simp: meal_save_def meal_super_save_def Let_def serving_datetime_def
      split: if_splits option.splits)

lemma meal_save_again:
  assumes "meal_pk self = Some k" "get_meal d k = Some r0" "\<not> is_active self"
  shows "meal_save now self d =
     (self\<lparr>updated_at := Some now\<rparr>,
      d\<lparr>db_meals := map (\<lambda>r. if meal_pk r = Some k then self\<lparr>updated_at := Some now\<rparr> else r)
          (db_meals d)\<rparr>)"
  using assms by (simp add: meal_save_def meal_super_save_def Let_def)

text \<open>
  C7. \<open>check_expired\<close> returns true exactly when the current time is past the serving
  date and time of the meal. In that case the meal is expired, inactive and saved;
  otherwise the meal and the database are left as they were. A repeated call at a later
  time returns true again and changes nothing but \<open>updated_at\<close>, which the repeated
  save sets to the time of that call. An expired flag that is set stays set.
\<close>

theorem check_expired_repeatable:
  assumes first: "check_expired now1 self d = (res1, self1, d1)" and later: "now1 \<le> now2"
  shows "res1 = (serving_datetime self < now1)
     \<and> (if res1
        then is_expired self1 \<and> \<not> is_active self1 \<and> meal_pk self1 \<noteq> None
          \<and> get_meal d1 (the (meal_pk self1)) = Some self1
          \<and> check_expired now2 self1 d1 =
              (True, self1\<lparr>updated_at := Some now2\<rparr>,
               d1\<lparr>db_meals := map (\<lambda>r. if meal_pk r = meal_pk self1
                                        then self1\<lparr>updated_at := Some now2\<rparr> else r)
                     (db_meals d1)\<rparr>)
        else self1 = self \<and> d1 = d)
     \<and> (is_expired self \<longrightarrow> is_expired self1)"
proof (cases "serving_datetime self < now1")
  case False
  with first show ?thesis by (simp add: check_expired_def)
next
  case True
  let ?m = "self\<lparr>is_expired := True, is_active := False\<rparr>"
  from True first have sv: "meal_save now1 ?m d = (self1, d1)" and r: "res1"
    by (auto simp: check_expired_def split: prod.splits)
  have st: "meal_pk self1 \<noteq> None" "get_meal d1 (the (meal_pk self1)) = Some self1"
    using meal_save_stored [OF sv] by simp_all
  have fl: "is_expired self1" "\<not> is_active self1" "serving_datetime self1 = serving_datetime self"
    using meal_save_fields [OF sv] by (simp_all add: serving_datetime_def)
  obtain k where k: "meal_pk self1 = Some k" using st(1) by auto
  have again: "meal_save now2 (self1\<lparr>is_expired := True, is_active := False\<rparr>) d1 =
     (self1\<lparr>updated_at := Some now2\<rparr>,
      d1\<lparr>db_meals := map (\<lambda>r. if meal_pk r = Some k then self1\<lparr>updated_at := Some now2\<rparr> else r)
          (db_meals d1)\<rparr>)"
  proof -
    have same: "self1\<lparr>is_expired := True, is_active := False\<rparr> = self1"
      using fl(1,2) by simp
    show ?thesis
      unfolding same using k st(2) fl(2) by (intro meal_save_again) simp_all
  qed
  have "check_expired now2 self1 d1 =
      (True, self1\<lparr>updated_at := Some now2\<rparr>,
       d1\<lparr>db_meals := map (\<lambda>r. if meal_pk r = meal_pk self1
                                then self1\<lparr>updated_at := Some now2\<rparr> else r)
             (db_meals d1)\<rparr>)"
    using True later fl(3) again k by (simp add: check_expired_def)
  with True r st fl show ?thesis by simp
qed

theorem check_expired_repeatable_witness:
  "check_expired 300 (fst (snd (check_expired 200 expired_meal small_db)))
       (snd (snd (check_expired 200 expired_meal small_db)))
   = (True, expired_meal\<lparr>is_expired := True, is_active := False, updated_at := Some 300\<rparr>,
      small_db\<lparr>db_meals :=
        [expired_meal\<lparr>is_expired := True, is_active := False, updated_at := Some 300\<rparr>]\<rparr>)"
proof -
  have first: "check_expired 200 expired_meal small_db =
     (True, expired_meal\<lparr>is_expired := True, is_active := False, updated_at := Some 200\<rparr>,
      small_db\<lparr>db_meals :=
        [expired_meal\<lparr>is_expired := True, is_active := False, updated_at := Some 200\<rparr>]\<rparr>)"
    by (simp add: check_expired_def meal_save_def meal_super_save_def get_meal_def
        serving_datetime_def expired_meal_def small_db_def mumbai_meal_def Let_def)
  have later: "(200::int) \<le> 300" by simp
  from check_expired_repeatable [OF first later]
  show ?thesis
    unfolding first by (simp add: expired_meal_def small_db_def mumbai_meal_def)
qed

text \<open>
  The second call is not a no-op: the meal it leaves differs from the meal the first call
  left (in \<open>updated_at\<close>), although both calls return true.
\<close>

theorem check_expired_second_call_counterexample:
  "fst (check_expired 200 expired_meal small_db)
   \<and> fst (check_expired 300 (fst (snd (check_expired 200 expired_meal small_db)))
       (snd (snd (check_expired 200 expired_meal small_db))))
   \<and> snd (check_expired 300 (fst (snd (check_expired 200 expired_meal small_db)))
       (snd (snd (check_expired 200 expired_meal small_db))))
     \<noteq> snd (check_expired 200 expired_meal small_db)"
  by (simp add: check_expired_def meal_save_def meal_super_save_def get_meal_def
        serving_datetime_def expired_meal_def small_db_def mumbai_meal_def Let_def)


section \<open>Claim creation and collection at concrete requests\<close>

lemma meal_save_keeps:
  assumes "meal_save now m d = (m', d')"
  shows "db_claims d' = db_claims d" "meal_pk m = Some k \<Longrightarrow> meal_pk m' = Some k"
  using assms
  by (auto simp: meal_save_def meal_super_save_def Let_def split: if_splits option.splits)

lemma get_meal_pk: "get_meal d k = Some m \<Longrightarrow> meal_pk m = Some k"
  by (auto simp: get_meal_def find_Some_iff)

text \<open>
  The order of the two writes in \<open>create\<close>, in general: a request that passes every
  availability check and asks for more than half of the servings left is answered with
  status 500 after the decremented meal has been saved; the claim table is as before and
  the stored meal has lost the servings.
\<close>

lemma create_rejects_after_decrement:
  assumes role: "user_role u = Some Beneficiary"
    and meal: "get_meal d k = Some meal"
    and id: "cr_meal req = Id_int k" "k \<noteq> 0"
    and qty: "int_of_quantity (cr_quantity_claimed req) = Some qty" "1 \<le> qty"
    and avail: "is_active meal" "\<not> is_expired meal" "now \<le> serving_datetime meal"
      "qty \<le> quantity meal"
    and fresh: "\<not> has_open_claim d k (user_pk u)"
    and more_than_half: "quantity meal - qty < qty"
  shows "fst (create u req rnd now d) = Failure 500 unexpected
     \<and> db_claims (snd (create u req rnd now d)) = db_claims d
     \<and> (case get_meal (snd (create u req rnd now d)) k of
          None \<Rightarrow> False | Some m \<Rightarrow> quantity m = quantity meal - qty)"
proof -
  let ?meal2 = "meal\<lparr>quantity := quantity meal - qty\<rparr>"
  let ?meal3 = "if quantity ?meal2 = 0 then ?meal2\<lparr>is_active := False\<rparr> else ?meal2"
  obtain meal4 d2 where sv: "meal_save now ?meal3 d = (meal4, d2)"
    by (cases "meal_save now ?meal3 d") auto
  have pk: "meal_pk meal = Some k" using meal by (rule get_meal_pk)
  then have pk3: "meal_pk ?meal3 = Some k" by simp
  have pk4: "meal_pk meal4 = Some k" using sv pk3 by (rule meal_save_keeps(2))
  have claims: "db_claims d2 = db_claims d" using sv by (rule meal_save_keeps(1))
  have stored: "get_meal d2 k = Some meal4"
    using meal_save_stored [OF sv] pk4 by simp
  have q4: "quantity meal4 = quantity meal - qty"
    using meal_save_fields(4) [OF sv] by simp
  have e4: "\<not> is_expired meal4"
    using meal_save_fields(1) [OF sv] avail(2) by simp
  have s4: "serving_datetime meal4 = serving_datetime meal"
    using meal_save_fields(3) [OF sv] by (simp add: serving_datetime_def)
  have ce: "check_expired now meal d = (False, meal, d)"
    using avail(3) by (simp add: check_expired_def)
  have ce4: "check_expired now meal4 d2 = (False, meal4, d2)"
    using avail(3) s4 by (simp add: check_expired_def)
  have sq: "serializer_quantity (cr_quantity_claimed req) = None
      \<or> serializer_quantity (cr_quantity_claimed req) = Some qty"
    using qty(1)
    by (cases "cr_quantity_claimed req")
       (auto simp: serializer_quantity_def int_of_quantity_def)
  have val: "\<exists>e. serializer_validate now k (user_pk u) (cr_quantity_claimed req) d2
      = (Inl e, d2)"
    using sq stored e4 ce4 q4 more_than_half
    by (auto simp: serializer_validate_def)
  then obtain e where val': "serializer_validate now k (user_pk u) (cr_quantity_claimed req) d2
      = (Inl e, d2)" ..
  have run: "create u req rnd now d = (Failure 500 unexpected, d2)"
    using role meal id qty avail(1,2,4) fresh ce sv val'
    by (simp add: create_def id_falsy_def id_number_def Let_def)
  show ?thesis
    using run claims stored q4 by simp
qed

lemmas eval_defs = create_def serializer_validate_def serializer_quantity_def
  check_expired_def meal_save_def
  meal_super_save_def get_meal_def serving_datetime_def id_falsy_def id_number_def
  int_of_quantity_def has_open_claim_def mumbai_meal_def Let_def

text \<open>
  C1. The view saves the decremented meal before the serializer validates the claim, and
  the serializer reads the meal back from the database. A request for the last serving
  passes every availability check, the meal is saved with quantity 0 and inactive, the
  serializer then refuses the claim (\<open>This meal is no longer available\<close>), and the
  request fails with status 500: the meal has lost its serving and no claim exists.
\<close>

theorem create_last_serving_fails_after_decrement:
  "create beneficiary_user
      \<lparr> cr_meal = Id_int 1, cr_quantity_claimed = Qty_int 1, cr_status = None \<rparr>
      (\<lambda>i. i) 2000 last_serving_db
   = (Failure 500 unexpected,
      \<lparr> db_meals = [mumbai_meal\<lparr>quantity := 0, is_active := False, updated_at := Some 2000\<rparr>],
        db_claims = [], meal_seq = 1, claim_seq = 0 \<rparr>)"
  by (simp add: eval_defs last_serving_db_def beneficiary_user_def)

text \<open>
  C3. A request for two of three servings of an active, unexpired meal by a beneficiary
  without an open claim meets none of the four rejection conditions; it is rejected all
  the same, after the decrement: the serializer finds one serving left where two are
  asked for.
\<close>

theorem create_two_of_three_rejected:
  "create beneficiary_user
      \<lparr> cr_meal = Id_int 1, cr_quantity_claimed = Qty_int 2, cr_status = None \<rparr>
      (\<lambda>i. i) 2000 three_servings_db
   = (Failure 500 unexpected,
      \<lparr> db_meals = [mumbai_meal\<lparr>quantity := 1, updated_at := Some 2000\<rparr>],
        db_claims = [], meal_seq = 1, claim_seq = 0 \<rparr>)"
  by (simp add: eval_defs three_servings_db_def beneficiary_user_def)

lemmas claim_eval_defs = mark_collected_def mark_as_collected_def claim_save_def
  claim_super_save_def claim_conflict_def get_claim_def get_queryset_def get_meal_def
  str_truthy_def confirmed_claim_def new_claim_def mumbai_meal_def Let_def

text \<open>
  C5. \<open>mark_collected\<close> does not look at the status of the claim. The second call on
  the same claim succeeds like the first and overwrites \<open>collected_at\<close>.
\<close>

theorem mark_collected_twice_succeeds_twice:
  "mark_collected provider_user 1 (\<lambda>i. i) 2000 claimed_db
     = (Success 200 (confirmed_claim\<lparr>status := Collected, collected_at := Some 2000,
           claim_updated_at := Some 2000\<rparr>),
        claimed_db\<lparr>db_claims := [confirmed_claim\<lparr>status := Collected,
           collected_at := Some 2000, claim_updated_at := Some 2000\<rparr>]\<rparr>)
   \<and> mark_collected provider_user 1 (\<lambda>i. i) 3000
       (claimed_db\<lparr>db_claims := [confirmed_claim\<lparr>status := Collected,
           collected_at := Some 2000, claim_updated_at := Some 2000\<rparr>]\<rparr>)
     = (Success 200 (confirmed_claim\<lparr>status := Collected, collected_at := Some 3000,
           claim_updated_at := Some 3000\<rparr>),
        claimed_db\<lparr>db_claims := [confirmed_claim\<lparr>status := Collected,
           collected_at := Some 3000, claim_updated_at := Some 3000\<rparr>]\<rparr>)"
  by (simp add: claim_eval_defs claimed_db_def provider_user_def)


section \<open>Properties of confirmation codes and of saving a claim\<close>

lemma map_filter_Cons:
  "List.map_filter g (x # xs) =
     (case g x of None \<Rightarrow> List.map_filter g xs | Some y \<Rightarrow> y # List.map_filter g xs)"
  by (simp add: List.map_filter_def split: option.splits)

lemma set_map_filter: "set (List.map_filter g xs) = {y. \<exists>x\<in>set xs. g x = Some y}"
  by (induction xs) (auto simp: map_filter_Cons List.map_filter_def split: option.splits)

lemma code_exists_stored: "code_exists d c \<longleftrightarrow> c \<in> set (stored_codes d)"
  by (auto simp: code_exists_def stored_codes_def set_map_filter list_ex_iff)

lemma replace_absent:
  "key \<notin> set (map pk xs) \<Longrightarrow> map (\<lambda>r. if pk r = key then row else r) xs = xs"
  by (induction xs) auto

lemma map_pk_replace:
  "pk row = key \<Longrightarrow> map pk (map (\<lambda>r. if pk r = key then row else r) xs) = map pk xs"
  by (induction xs) auto

lemma distinct_map_filter_replace:
  assumes "distinct (map pk xs)" "distinct (List.map_filter g xs)"
    and "\<forall>r\<in>set xs. pk r \<noteq> key \<longrightarrow> g row = None \<or> g r \<noteq> g row"
  shows "distinct (List.map_filter g (map (\<lambda>r. if pk r = key then row else r) xs))"
  using assms
proof (induction xs)
  case Nil
  then show ?case by (simp add: List.map_filter_def)
next
  case (Cons x xs)
  show ?case
  proof (cases "pk x = key")
    case True
    with Cons.prems(1) have absent: "key \<notin> set (map pk xs)" by auto
    then have same: "map (\<lambda>r. if pk r = key then row else r) xs = xs"
      by (rule replace_absent)
    have tail: "distinct (List.map_filter g xs)"
      using Cons.prems(2) by (auto simp: map_filter_Cons split: option.splits)
    have others: "\<forall>r\<in>set xs. pk r \<noteq> key"
    proof
      fix r assume "r \<in> set xs"
      then have "pk r \<in> set (map pk xs)" by simp
      with absent show "pk r \<noteq> key" by auto
    qed
    have fresh: "g row = Some y \<Longrightarrow> y \<notin> set (List.map_filter g xs)" for y
      using Cons.prems(3) others by (auto simp: set_map_filter)
    show ?thesis
      using True same tail fresh by (auto simp: map_filter_Cons split: option.splits)
  next
    case False
    have ih: "distinct (List.map_filter g (map (\<lambda>r. if pk r = key then row else r) xs))"
      using Cons.IH Cons.prems by (auto simp: map_filter_Cons split: option.splits)
    have notin: "g x = Some y \<Longrightarrow>
        y \<notin> set (List.map_filter g (map (\<lambda>r. if pk r = key then row else r) xs))" for y
    proof
      assume gx: "g x = Some y"
        and "y \<in> set (List.map_filter g (map (\<lambda>r. if pk r = key then row else r) xs))"
      then obtain r where r: "r \<in> set xs" "g (if pk r = key then row else r) = Some y"
        by (auto simp: set_map_filter)
      show False
      proof (cases "pk r = key")
        case True
        with r gx Cons.prems(3) False show False by auto
      next
        case False
        with r gx Cons.prems(2) show False
          by (auto simp: map_filter_Cons set_map_filter)
      qed
    qed
    show ?thesis
      using False ih notin by (auto simp: map_filter_Cons split: option.splits)
  qed
qed

lemma find_None_pk: "find (\<lambda>r. pk r = Some k) xs = None \<Longrightarrow> Some k \<notin> set (map pk xs)"
  by (auto simp: find_None_iff)

lemma list_all_seq_mono:
  "list_all (\<lambda>r. case claim_pk r of None \<Rightarrow> False | Some k \<Rightarrow> k \<le> s) xs \<Longrightarrow> s \<le> s' \<Longrightarrow>
   list_all (\<lambda>r. case claim_pk r of None \<Rightarrow> False | Some k \<Rightarrow> k \<le> s') xs"
  by (induction xs) (auto split: option.splits)

lemma claim_super_save_wf:
  assumes wf: "claims_wf d" and saved: "claim_super_save now self d = Inr (row, d')"
  shows "claims_wf d'"
proof -
  from saved have noconf: "\<not> list_ex (claim_conflict self) (db_claims d)"
    by (auto simp: claim_super_save_def split: if_splits)
  from wf have dpk: "distinct (map claim_pk (db_claims d))"
    and bound: "list_all (\<lambda>r. case claim_pk r of None \<Rightarrow> False | Some k \<Rightarrow> k \<le> claim_seq d)
            (db_claims d)"
    and dcodes: "distinct (List.map_filter confirmation_code (db_claims d))"
    by (simp_all add: claims_wf_def stored_codes_def)
  have haspk: "\<forall>r\<in>set (db_claims d). \<exists>k. claim_pk r = Some k \<and> k \<le> claim_seq d"
    using bound by (auto simp: list_all_iff split: option.splits)
  have others: "\<forall>r\<in>set (db_claims d). claim_pk r \<noteq> claim_pk self \<longrightarrow>
      confirmation_code self = None \<or> confirmation_code r \<noteq> confirmation_code self"
    using noconf by (auto simp: list_ex_iff claim_conflict_def)
  show ?thesis
  proof (cases "claim_pk self")
    case None
    let ?k = "claim_seq d + 1"
    let ?row = "self\<lparr>claim_pk := Some ?k, claimed_at := Some now, claim_updated_at := Some now\<rparr>"
    from None saved noconf have d': "d' = d\<lparr>db_claims := ?row # db_claims d, claim_seq := ?k\<rparr>"
      by (auto simp: claim_super_save_def Let_def)
    have fresh_pk: "Some ?k \<notin> set (map claim_pk (db_claims d))"
      using haspk by force
    have fresh_code: "confirmation_code self = Some y \<Longrightarrow>
        y \<notin> set (List.map_filter confirmation_code (db_claims d))" for y
      using others haspk None by (force simp: set_map_filter)
    have "list_all (\<lambda>r. case claim_pk r of None \<Rightarrow> False | Some k \<Rightarrow> k \<le> ?k) (db_claims d)"
      using bound by (rule list_all_seq_mono) simp
    with dpk dcodes fresh_pk fresh_code show ?thesis
      unfolding d' claims_wf_def stored_codes_def
      by (auto simp: map_filter_Cons split: option.splits)
  next
    case (Some k)
    let ?row = "self\<lparr>claim_updated_at := Some now\<rparr>"
    show ?thesis
    proof (cases "get_claim d k")
      case None
      let ?ins = "?row\<lparr>claimed_at := Some now\<rparr>"
      from None Some saved noconf
      have d': "d' = d\<lparr>db_claims := ?ins # db_claims d, claim_seq := max k (claim_seq d)\<rparr>"
        by (auto simp: claim_super_save_def Let_def)
      have fresh_pk: "Some k \<notin> set (map claim_pk (db_claims d))"
        using None unfolding get_claim_def by (rule find_None_pk)
      have fresh_code: "confirmation_code self = Some y \<Longrightarrow>
          y \<notin> set (List.map_filter confirmation_code (db_claims d))" for y
        using others fresh_pk Some by (force simp: set_map_filter)
      have "list_all (\<lambda>r. case claim_pk r of None \<Rightarrow> False | Some j \<Rightarrow> j \<le> max k (claim_seq d))
          (db_claims d)"
        using bound by (rule list_all_seq_mono) simp
      with dpk dcodes fresh_pk fresh_code Some show ?thesis
        unfolding d' claims_wf_def stored_codes_def
        by (auto simp: map_filter_Cons split: option.splits)
    next
      case (Some r0)
      let ?new = "map (\<lambda>r. if claim_pk r = Some k then ?row else r) (db_claims d)"
      from Some \<open>claim_pk self = Some k\<close> saved noconf
      have d': "d' = d\<lparr>db_claims := ?new\<rparr>"
        by (auto simp: claim_super_save_def Let_def)
      have pks: "map claim_pk ?new = map claim_pk (db_claims d)"
        using \<open>claim_pk self = Some k\<close> by (intro map_pk_replace) simp
      have others': "\<forall>r\<in>set (db_claims d). claim_pk r \<noteq> Some k \<longrightarrow>
          confirmation_code ?row = None \<or> confirmation_code r \<noteq> confirmation_code ?row"
        using others \<open>claim_pk self = Some k\<close> by simp
      have codes: "distinct (List.map_filter confirmation_code ?new)"
        using dpk dcodes others' by (rule distinct_map_filter_replace)
      have "r0 \<in> set (db_claims d) \<and> claim_pk r0 = Some k"
        using Some unfolding get_claim_def by (auto simp: find_Some_iff)
      then have "k \<le> claim_seq d" using haspk by force
      then have bound': "list_all (\<lambda>r. case claim_pk r of None \<Rightarrow> False | Some j \<Rightarrow> j \<le> claim_seq d) ?new"
        using bound \<open>claim_pk self = Some k\<close>
        by (auto simp: list_all_iff)
      have dpk': "distinct (map claim_pk ?new)" unfolding pks by (rule dpk)
      have c: "db_claims d' = ?new" "claim_seq d' = claim_seq d" by (simp_all add: d')
      show ?thesis
        unfolding claims_wf_def stored_codes_def c using dpk' codes bound' by blast
    qed
  qed
qed


lemma claim_save_wf:
  assumes "claims_wf d" "claim_save rnd now self d = Inr (row, d')"
  shows "claims_wf d'"
  using assms claim_super_save_wf unfolding claim_save_def Let_def by blast

lemma random_choices_shape:
  assumes "population \<noteq> []"
  shows "length (random_choices population k rnd a) = k"
    and "list_all (\<lambda>c. c \<in> set population) (random_choices population k rnd a)"
  using assms by (auto simp: random_choices_def list_all_iff)

lemma is_random_code_choices:
  "is_random_code (random_choices (ascii_uppercase @ digits) 8 rnd a)"
  unfolding is_random_code_def
  using random_choices_shape [of "ascii_uppercase @ digits" 8 rnd a]
  by (simp add: ascii_uppercase_def)

lemma claim_save_created:
  assumes "claim_pk c = None" "\<not> str_truthy (confirmation_code c)"
    and "claim_save rnd now c d = Inr (c', d')"
  shows "status c' = Confirmed" "otp_verified c'"
    "confirmation_code c' = Some (generate_confirmation_code d rnd now)"
    "claim_pk c' = Some (claim_seq d + 1)" "db_claims d' = c' # db_claims d"
  using assms
  by (auto simp: claim_save_def claim_super_save_def Let_def split: if_splits)

lemma claim_save_later:
  assumes "claim_pk c \<noteq> None" "claim_save rnd now c d = Inr (c', d')"
  shows "confirmation_code c' = confirmation_code c" "status c' = status c"
    "claim_pk c' = claim_pk c"
  using assms
  by (auto simp: claim_save_def claim_super_save_def Let_def split: if_splits option.splits)


lemma generate_loop_find:
  "generate_loop d rnd now a n =
     (case find (\<lambda>code. \<not> code_exists d code)
             (map (random_choices (ascii_uppercase @ digits) 8 rnd) [a..<a + n]) of
        Some code \<Rightarrow> code
      | None \<Rightarrow> ''CODE'' @ str_int now)"
proof (induction n arbitrary: a)
  case 0
  then show ?case by simp
next
  case (Suc n)
  have "[a..<a + Suc n] = a # [Suc a..<Suc a + n]"
    by (simp add: upt_conv_Cons)
  with Suc.IH [of "Suc a"] show ?case by (simp add: Let_def)
qed

lemma new_claim_conflict:
  assumes wf: "claims_wf d" and new: "claim_pk self = None"
    and code: "confirmation_code self = Some g"
  shows "list_ex (claim_conflict self) (db_claims d)
     = (code_exists d g \<or> pair_taken d (claim_meal self) (beneficiary self))"
proof -
  have haspk: "\<forall>r\<in>set (db_claims d). claim_pk r \<noteq> None"
    using wf by (auto simp: claims_wf_def list_all_iff split: option.splits)
  show ?thesis
    using haspk new code
    by (auto simp: list_ex_iff claim_conflict_def code_exists_def pair_taken_def)
qed

lemma claim_save_new:
  assumes wf: "claims_wf d" and new: "claim_pk c = None"
    "str_truthy (confirmation_code c) = False"
  shows "claim_save rnd now c d =
     (if code_exists d (generate_confirmation_code d rnd now)
         \<or> pair_taken d (claim_meal c) (beneficiary c)
      then Inl IntegrityError
      else Inr (c\<lparr>claim_pk := Some (claim_seq d + 1),
                  status := Confirmed, otp_verified := True, otp_verified_at := Some now,
                  confirmation_code := Some (generate_confirmation_code d rnd now),
                  claimed_at := Some now, claim_updated_at := Some now\<rparr>,
                d\<lparr>db_claims :=
                    c\<lparr>claim_pk := Some (claim_seq d + 1),
                      status := Confirmed, otp_verified := True, otp_verified_at := Some now,
                      confirmation_code := Some (generate_confirmation_code d rnd now),
                      claimed_at := Some now, claim_updated_at := Some now\<rparr> # db_claims d,
                  claim_seq := claim_seq d + 1\<rparr>))"
proof -
  let ?g = "generate_confirmation_code d rnd now"
  let ?self = "c\<lparr>confirmation_code := Some ?g, status := Confirmed, otp_verified := True,
      otp_verified_at := Some now\<rparr>"
  have "list_ex (claim_conflict ?self) (db_claims d)
     = (code_exists d ?g \<or> pair_taken d (claim_meal ?self) (beneficiary ?self))"
    using wf by (rule new_claim_conflict) (simp_all add: new)
  then show ?thesis
    using new by (simp add: claim_save_def claim_super_save_def Let_def)
qed


lemma create_success_saved:
  assumes "create u req rnd now d = (Success st cl, d2)"
  shows "\<exists>c d3. claim_save rnd now c d3 = Inr (cl, d2) \<and> claim_pk c = None
      \<and> confirmation_code c = None"
  using assms unfolding create_def Let_def
  by (auto split: if_splits option.splits prod.splits sum.splits bool.splits)

text \<open>
  C6. On a well-formed claim table:
  the generated code is the first of ten random draws that is not stored yet, and
  \<open>CODE\<close> followed by the time stamp when all ten are stored; every draw is a code of
  eight upper-case letters and digits; only the fallback can be a code that is stored
  already.
  Saving a new claim that carries no code either fails with \<open>IntegrityError\<close>, when the
  generated code is stored already or the pair of meal and beneficiary has a claim, and
  otherwise stores the claim as confirmed, whatever status it came with, under the
  generated code and the next primary key.
  Every successful save leaves the table well-formed, so the stored codes stay pairwise
  distinct. Saving a claim that has a primary key changes neither its code nor its
  status. Every claim that the \<open>create\<close> view returns is confirmed and has a code,
  whatever status the request supplied.
\<close>

theorem confirmation_code_assigned_once:
  assumes wf: "claims_wf d"
  shows
   "generate_confirmation_code d rnd now =
       (case find (\<lambda>code. \<not> code_exists d code)
               (map (random_choices (ascii_uppercase @ digits) 8 rnd) [0..<10]) of
          Some code \<Rightarrow> code
        | None \<Rightarrow> ''CODE'' @ str_int now)
    \<and> list_all is_random_code (map (random_choices (ascii_uppercase @ digits) 8 rnd) [0..<10])
    \<and> (code_exists d (generate_confirmation_code d rnd now) \<longrightarrow>
          generate_confirmation_code d rnd now = ''CODE'' @ str_int now)
    \<and> (claim_pk c = None \<and> str_truthy (confirmation_code c) = False \<longrightarrow>
         claim_save rnd now c d =
           (if code_exists d (generate_confirmation_code d rnd now)
               \<or> pair_taken d (claim_meal c) (beneficiary c)
            then Inl IntegrityError
            else Inr (c\<lparr>claim_pk := Some (claim_seq d + 1),
                        status := Confirmed, otp_verified := True,
                        otp_verified_at := Some now,
                        confirmation_code := Some (generate_confirmation_code d rnd now),
                        claimed_at := Some now, claim_updated_at := Some now\<rparr>,
                      d\<lparr>db_claims :=
                          c\<lparr>claim_pk := Some (claim_seq d + 1),
                            status := Confirmed, otp_verified := True,
                            otp_verified_at := Some now,
                            confirmation_code := Some (generate_confirmation_code d rnd now),
                            claimed_at := Some now, claim_updated_at := Some now\<rparr>
                          # db_claims d,
                        claim_seq := claim_seq d + 1\<rparr>)))
    \<and> (claim_save rnd now c d = Inr (c', d') \<longrightarrow>
          claims_wf d' \<and> distinct (stored_codes d'))
    \<and> (claim_pk c \<noteq> None \<and> claim_save rnd now c d = Inr (c', d') \<longrightarrow>
          confirmation_code c' = confirmation_code c \<and> status c' = status c)
    \<and> (create u req rnd2 now2 d2 = (Success st cl, d3) \<longrightarrow>
          status cl = Confirmed \<and> confirmation_code cl \<noteq> None)"
proof -
  let ?draws = "map (random_choices (ascii_uppercase @ digits) 8 rnd) [0..<10]"
  have gen: "generate_confirmation_code d rnd now =
       (case find (\<lambda>code. \<not> code_exists d code) ?draws of
          Some code \<Rightarrow> code | None \<Rightarrow> ''CODE'' @ str_int now)"
    using generate_loop_find [of d rnd now 0 10]
    by (simp add: generate_confirmation_code_def)
  have shape: "list_all is_random_code ?draws"
    by (simp add: list_all_iff is_random_code_choices)
  have stored: "code_exists d (generate_confirmation_code d rnd now) \<longrightarrow>
          generate_confirmation_code d rnd now = ''CODE'' @ str_int now"
  proof (cases "find (\<lambda>code. \<not> code_exists d code) ?draws")
    case None
    with gen show ?thesis by simp
  next
    case (Some code)
    then have "\<not> code_exists d code" by (auto simp: find_Some_iff)
    with gen Some show ?thesis by simp
  qed
  have created: "claim_pk c = None \<and> str_truthy (confirmation_code c) = False \<longrightarrow>
         claim_save rnd now c d =
           (if code_exists d (generate_confirmation_code d rnd now)
               \<or> pair_taken d (claim_meal c) (beneficiary c)
            then Inl IntegrityError
            else Inr (c\<lparr>claim_pk := Some (claim_seq d + 1),
                        status := Confirmed, otp_verified := True,
                        otp_verified_at := Some now,
                        confirmation_code := Some (generate_confirmation_code d rnd now),
                        claimed_at := Some now, claim_updated_at := Some now\<rparr>,
                      d\<lparr>db_claims :=
                          c\<lparr>claim_pk := Some (claim_seq d + 1),
                            status := Confirmed, otp_verified := True,
                            otp_verified_at := Some now,
                            confirmation_code := Some (generate_confirmation_code d rnd now),
                            claimed_at := Some now, claim_updated_at := Some now\<rparr>
                          # db_claims d,
                        claim_seq := claim_seq d + 1\<rparr>))"
    using claim_save_new [OF wf] by blast
  have kept: "claim_save rnd now c d = Inr (c', d') \<longrightarrow>
          claims_wf d' \<and> distinct (stored_codes d')"
  proof
    assume "claim_save rnd now c d = Inr (c', d')"
    with wf have "claims_wf d'" by (rule claim_save_wf)
    then show "claims_wf d' \<and> distinct (stored_codes d')" by (simp add: claims_wf_def)
  qed
  have later: "claim_pk c \<noteq> None \<and> claim_save rnd now c d = Inr (c', d') \<longrightarrow>
          confirmation_code c' = confirmation_code c \<and> status c' = status c"
    using claim_save_later by blast
  have view: "create u req rnd2 now2 d2 = (Success st cl, d3) \<longrightarrow>
          status cl = Confirmed \<and> confirmation_code cl \<noteq> None"
  proof
    assume "create u req rnd2 now2 d2 = (Success st cl, d3)"
    then obtain c0 d0 where sv: "claim_save rnd2 now2 c0 d0 = Inr (cl, d3)"
      and new: "claim_pk c0 = None" "confirmation_code c0 = None"
      using create_success_saved by blast
    have "\<not> str_truthy (confirmation_code c0)" using new by (simp add: str_truthy_def)
    from claim_save_created [OF new(1) this sv]
    show "status cl = Confirmed \<and> confirmation_code cl \<noteq> None" by simp
  qed
  from gen shape stored created kept later view show ?thesis by blast
qed

lemma gl10: "generate_loop d rnd now attempt 10 =
     (let code = random_choices (ascii_uppercase @ digits) 8 rnd attempt
      in if \<not> code_exists d code then code
         else generate_loop d rnd now (Suc attempt) 9)"
  using generate_loop.simps(2) [of d rnd now attempt 9] by simp

lemma first_code: "random_choices (ascii_uppercase @ digits) 8 (\<lambda>i. i) 0 = ''ABCDEFGH''"
  by (simp add: random_choices_def ascii_uppercase_def digits_def upt_rec)

lemma generate_on_three_servings_db:
  "generate_confirmation_code
     (three_servings_db\<lparr>db_meals := [mumbai_meal\<lparr>quantity := 2, updated_at := Some 2000\<rparr>]\<rparr>)
     (\<lambda>i. i) 2000 = ''ABCDEFGH''"
  by (simp add: generate_confirmation_code_def gl10 first_code code_exists_def
      three_servings_db_def)

text \<open>A request for one of three servings succeeds; the status it supplies is overridden.\<close>

lemma create_one_of_three_succeeds:
  "create beneficiary_user
      \<lparr> cr_meal = Id_int 1, cr_quantity_claimed = Qty_missing, cr_status = Some Cancelled \<rparr>
      (\<lambda>i. i) 2000 three_servings_db
   = (Success 201
        (new_claim\<lparr>claim_pk := Some 1, status := Confirmed, otp_verified := True,
           otp_verified_at := Some 2000, confirmation_code := Some ''ABCDEFGH'',
           claimed_at := Some 2000, claim_updated_at := Some 2000\<rparr>),
      \<lparr> db_meals = [mumbai_meal\<lparr>quantity := 2, updated_at := Some 2000\<rparr>],
        db_claims = [new_claim\<lparr>claim_pk := Some 1, status := Confirmed, otp_verified := True,
           otp_verified_at := Some 2000, confirmation_code := Some ''ABCDEFGH'',
           claimed_at := Some 2000, claim_updated_at := Some 2000\<rparr>],
        meal_seq = 1, claim_seq = 1 \<rparr>)"
proof -
  have gen: "generate_confirmation_code
     \<lparr> db_meals = [mumbai_meal\<lparr>quantity := 2, updated_at := Some 2000\<rparr>], db_claims = [],
       meal_seq = 1, claim_seq = 0 \<rparr> (\<lambda>i. i) 2000 = ''ABCDEFGH''"
    using generate_on_three_servings_db by (simp add: three_servings_db_def)
  have sv: "claim_save (\<lambda>i. i) 2000
      \<lparr> claim_pk = None, claim_meal = 1, beneficiary = 3, quantity_claimed = 1,
        status = Cancelled, otp_verified = False, otp_verified_at = None,
        confirmation_code = None, collected_at = None, claimed_at = None,
        claim_updated_at = None \<rparr>
      \<lparr> db_meals = [mumbai_meal\<lparr>quantity := 2, updated_at := Some 2000\<rparr>], db_claims = [],
        meal_seq = 1, claim_seq = 0 \<rparr>
    = Inr (new_claim\<lparr>claim_pk := Some 1, status := Confirmed, otp_verified := True,
           otp_verified_at := Some 2000, confirmation_code := Some ''ABCDEFGH'',
           claimed_at := Some 2000, claim_updated_at := Some 2000\<rparr>,
      \<lparr> db_meals = [mumbai_meal\<lparr>quantity := 2, updated_at := Some 2000\<rparr>],
        db_claims = [new_claim\<lparr>claim_pk := Some 1, status := Confirmed, otp_verified := True,
           otp_verified_at := Some 2000, confirmation_code := Some ''ABCDEFGH'',
           claimed_at := Some 2000, claim_updated_at := Some 2000\<rparr>],
        meal_seq = 1, claim_seq = 1 \<rparr>)"
    by (simp add: claim_save_def gen str_truthy_def Let_def)
       (simp add: claim_super_save_def new_claim_def Let_def)
  have pre: "mumbai_meal\<lparr>quantity := 2, updated_at := Some 2000\<rparr>
      = \<lparr> meal_pk = Some 1, quantity = 2, original_quantity = 3,
     serving_date = 20000, serving_time = 43200,
     latitude = Some (19076 / 1000), longitude = Some (728777 / 10000),
     proximity_radius = 5, provider = 7, is_active = True, is_expired = False,
     created_at = Some 1000, updated_at = Some 2000 \<rparr>"
    by (simp add: mumbai_meal_def)
  show ?thesis
    using sv unfolding pre
    by (simp add: eval_defs three_servings_db_def beneficiary_user_def)
qed

lemma draws_identity:
  "map (random_choices (ascii_uppercase @ digits) 8 (\<lambda>i. i)) [0..<10] =
     [''ABCDEFGH'', ''IJKLMNOP'', ''QRSTUVWX'', ''YZ012345'', ''6789ABCD'', ''EFGHIJKL'',
      ''MNOPQRST'', ''UVWXYZ01'', ''23456789'', ''ABCDEFGH'']"
  by (simp add: random_choices_def ascii_uppercase_def digits_def upt_rec)

lemma draws_constant:
  "map (random_choices (ascii_uppercase @ digits) 8 (\<lambda>i. 0)) [0..<10] =
     [''AAAAAAAA'', ''AAAAAAAA'', ''AAAAAAAA'', ''AAAAAAAA'', ''AAAAAAAA'', ''AAAAAAAA'',
      ''AAAAAAAA'', ''AAAAAAAA'', ''AAAAAAAA'', ''AAAAAAAA'']"
  by (simp add: random_choices_def ascii_uppercase_def digits_def upt_rec)


text \<open>
  Three runs of the statement above: a collision on the first draw, answered by the
  second draw; ten collisions, answered by the fallback; and a second claim in the same
  second with ten collisions again, whose fallback is stored already and is refused.
\<close>

theorem confirmation_code_assigned_once_witness:
  "generate_confirmation_code retry_db (\<lambda>i. i) 500 = ''IJKLMNOP''
   \<and> claim_save (\<lambda>i. i) 500 (new_claim\<lparr>beneficiary := 4, status := Cancelled\<rparr>) retry_db
     = Inr (new_claim\<lparr>beneficiary := 4, claim_pk := Some 2, status := Confirmed,
              otp_verified := True, otp_verified_at := Some 500,
              confirmation_code := Some ''IJKLMNOP'', claimed_at := Some 500,
              claim_updated_at := Some 500\<rparr>,
            retry_db\<lparr>db_claims :=
              [new_claim\<lparr>beneficiary := 4, claim_pk := Some 2, status := Confirmed,
                 otp_verified := True, otp_verified_at := Some 500,
                 confirmation_code := Some ''IJKLMNOP'', claimed_at := Some 500,
                 claim_updated_at := Some 500\<rparr>, first_draw_claim],
              claim_seq := 2\<rparr>)
   \<and> generate_confirmation_code exhausted_db (\<lambda>i. 0) 500 = ''CODE500''
   \<and> claim_save (\<lambda>i. 0) 500 (new_claim\<lparr>beneficiary := 4\<rparr>) exhausted_db
     = Inr (new_claim\<lparr>beneficiary := 4, claim_pk := Some 2, status := Confirmed,
              otp_verified := True, otp_verified_at := Some 500,
              confirmation_code := Some ''CODE500'', claimed_at := Some 500,
              claim_updated_at := Some 500\<rparr>,
            exhausted_db\<lparr>db_claims :=
              [new_claim\<lparr>beneficiary := 4, claim_pk := Some 2, status := Confirmed,
                 otp_verified := True, otp_verified_at := Some 500,
                 confirmation_code := Some ''CODE500'', claimed_at := Some 500,
                 claim_updated_at := Some 500\<rparr>, all_a_claim],
              claim_seq := 2\<rparr>)
   \<and> claim_save (\<lambda>i. 0) 500 (new_claim\<lparr>beneficiary := 5\<rparr>)
       (exhausted_db\<lparr>db_claims :=
              [new_claim\<lparr>beneficiary := 4, claim_pk := Some 2, status := Confirmed,
                 otp_verified := True, otp_verified_at := Some 500,
                 confirmation_code := Some ''CODE500'', claimed_at := Some 500,
                 claim_updated_at := Some 500\<rparr>, all_a_claim],
              claim_seq := 2\<rparr>)
     = Inl IntegrityError"
proof -
  let ?row = "new_claim\<lparr>beneficiary := 4, claim_pk := Some 2, status := Confirmed,
                 otp_verified := True, otp_verified_at := Some 500,
                 confirmation_code := Some ''CODE500'', claimed_at := Some 500,
                 claim_updated_at := Some 500\<rparr>"
  let ?db2 = "exhausted_db\<lparr>db_claims := [?row, all_a_claim], claim_seq := 2\<rparr>"
  have s500: "str_int 500 = ''500''"
    by (simp add: str_int_def str_nat.simps digits_def)
  have new: "claim_pk (new_claim\<lparr>beneficiary := b, status := s\<rparr>) = None
      \<and> str_truthy (confirmation_code (new_claim\<lparr>beneficiary := b, status := s\<rparr>)) = False"
    for b s by (simp add: new_claim_def str_truthy_def)
  have new': "claim_pk (new_claim\<lparr>beneficiary := b\<rparr>) = None
      \<and> str_truthy (confirmation_code (new_claim\<lparr>beneficiary := b\<rparr>)) = False"
    for b by (simp add: new_claim_def str_truthy_def)

  have wf1: "claims_wf retry_db"
    by (simp add: claims_wf_def stored_codes_def List.map_filter_def retry_db_def
        claimed_db_def first_draw_claim_def confirmed_claim_def)
  note t1 = confirmation_code_assigned_once [OF wf1, where rnd = "\<lambda>i. i" and now = 500
      and c = "new_claim\<lparr>beneficiary := 4, status := Cancelled\<rparr>"]
  have ex1: "code_exists retry_db ''ABCDEFGH''" "\<not> code_exists retry_db ''IJKLMNOP''"
    by (simp_all add: code_exists_def retry_db_def claimed_db_def first_draw_claim_def
        confirmed_claim_def)
  have g1: "generate_confirmation_code retry_db (\<lambda>i. i) 500 = ''IJKLMNOP''"
    using t1 [THEN conjunct1] ex1 unfolding draws_identity by simp
  have p1: "\<not> pair_taken retry_db (claim_meal (new_claim\<lparr>beneficiary := 4, status := Cancelled\<rparr>))
      (beneficiary (new_claim\<lparr>beneficiary := 4, status := Cancelled\<rparr>))"
    by (simp add: pair_taken_def retry_db_def claimed_db_def first_draw_claim_def
        confirmed_claim_def new_claim_def)
  have s1: "claim_save (\<lambda>i. i) 500 (new_claim\<lparr>beneficiary := 4, status := Cancelled\<rparr>) retry_db
     = Inr (new_claim\<lparr>beneficiary := 4, claim_pk := Some 2, status := Confirmed,
              otp_verified := True, otp_verified_at := Some 500,
              confirmation_code := Some ''IJKLMNOP'', claimed_at := Some 500,
              claim_updated_at := Some 500\<rparr>,
            retry_db\<lparr>db_claims :=
              [new_claim\<lparr>beneficiary := 4, claim_pk := Some 2, status := Confirmed,
                 otp_verified := True, otp_verified_at := Some 500,
                 confirmation_code := Some ''IJKLMNOP'', claimed_at := Some 500,
                 claim_updated_at := Some 500\<rparr>, first_draw_claim],
              claim_seq := 2\<rparr>)"
    using t1 [THEN conjunct2, THEN conjunct2, THEN conjunct2, THEN conjunct1, rule_format, OF new]
      ex1 p1 unfolding g1
    by (simp add: retry_db_def claimed_db_def new_claim_def)

  have wf2: "claims_wf exhausted_db"
    by (simp add: claims_wf_def stored_codes_def List.map_filter_def exhausted_db_def
        claimed_db_def all_a_claim_def confirmed_claim_def)
  note t2 = confirmation_code_assigned_once [OF wf2, where rnd = "\<lambda>i. 0" and now = 500
      and c = "new_claim\<lparr>beneficiary := 4\<rparr>"]
  have ex2: "code_exists exhausted_db ''AAAAAAAA''" "\<not> code_exists exhausted_db ''CODE500''"
    by (simp_all add: code_exists_def exhausted_db_def claimed_db_def all_a_claim_def
        confirmed_claim_def)
  have g2: "generate_confirmation_code exhausted_db (\<lambda>i. 0) 500 = ''CODE500''"
    using t2 [THEN conjunct1] ex2 unfolding draws_constant by (simp add: s500)
  have p2: "\<not> pair_taken exhausted_db (claim_meal (new_claim\<lparr>beneficiary := 4\<rparr>))
      (beneficiary (new_claim\<lparr>beneficiary := 4\<rparr>))"
    by (simp add: pair_taken_def exhausted_db_def claimed_db_def all_a_claim_def
        confirmed_claim_def new_claim_def)
  have s2: "claim_save (\<lambda>i. 0) 500 (new_claim\<lparr>beneficiary := 4\<rparr>) exhausted_db
      = Inr (?row, ?db2)"
    using t2 [THEN conjunct2, THEN conjunct2, THEN conjunct2, THEN conjunct1, rule_format, OF new']
      ex2 p2 unfolding g2
    by (simp add: exhausted_db_def claimed_db_def new_claim_def)

  have wf3: "claims_wf ?db2"
    using t2 [THEN conjunct2, THEN conjunct2, THEN conjunct2, THEN conjunct2, THEN conjunct1,
        rule_format, OF s2] by simp
  note t3 = confirmation_code_assigned_once [OF wf3, where rnd = "\<lambda>i. 0" and now = 500
      and c = "new_claim\<lparr>beneficiary := 5\<rparr>"]
  have ex3: "code_exists ?db2 ''AAAAAAAA''" "code_exists ?db2 ''CODE500''"
    by (simp_all add: code_exists_def exhausted_db_def claimed_db_def all_a_claim_def
        confirmed_claim_def new_claim_def)
  have g3: "generate_confirmation_code ?db2 (\<lambda>i. 0) 500 = ''CODE500''"
    using t3 [THEN conjunct1] ex3 unfolding draws_constant by (simp add: s500)
  have s3: "claim_save (\<lambda>i. 0) 500 (new_claim\<lparr>beneficiary := 5\<rparr>) ?db2 = Inl IntegrityError"
    using t3 [THEN conjunct2, THEN conjunct2, THEN conjunct2, THEN conjunct1, rule_format, OF new']
      ex3 unfolding g3 by simp
  from g1 s1 g2 s2 s3 show ?thesis by simp
qed

section \<open>Properties of the verification gateway\<close>

lemma claim_conflict_collected:
  "claim_conflict (cl\<lparr>status := s, collected_at := t\<rparr>) r = claim_conflict cl r"
  by (simp add: claim_conflict_def)

lemma get_claim_pk: "get_claim d n = Some cl \<Longrightarrow> claim_pk cl = Some n"
  by (auto simp: get_claim_def find_Some_iff)

lemma claim_save_collect:
  assumes "get_claim d n = Some cl" "\<not> list_ex (claim_conflict cl) (db_claims d)"
  shows "claim_save rnd now (cl\<lparr>status := Collected, collected_at := Some now\<rparr>) d =
     Inr (cl\<lparr>status := Collected, collected_at := Some now, claim_updated_at := Some now\<rparr>,
          d\<lparr>db_claims := map (\<lambda>r. if claim_pk r = Some n
               then cl\<lparr>status := Collected, collected_at := Some now,
                      claim_updated_at := Some now\<rparr> else r) (db_claims d)\<rparr>)"
proof -
  have pk: "claim_pk cl = Some n" using assms(1) by (rule get_claim_pk)
  have "list_ex (claim_conflict (cl\<lparr>status := Collected, collected_at := Some now\<rparr>))
      (db_claims d) = list_ex (claim_conflict cl) (db_claims d)"
    by (simp add: claim_conflict_collected [abs_def])
  with assms pk show ?thesis
    by (simp add: claim_save_def claim_super_save_def Let_def)
qed

text \<open>
  C4. \<open>verify_collection\<close> on a request that carries a numeric claim id and a code that
  is not empty once it is upper-cased and stripped. An unknown claim id gives 404; a
  caller other than the provider of the meal gives 403; a collected claim and a cancelled
  claim give their own 400 answers; none of these answers depends on the code. Otherwise
  the request succeeds exactly when the upper-cased, stripped code equals the whole
  confirmation code, its first four characters, or the first four of its digits; the
  claim is then stored as collected with the time of the call, and a code that matches
  none of the three gives the invalid-code answer with the database untouched.
\<close>

theorem verify_collection_outcome:
  assumes "id_falsy (vr_claim_id req) = False" "id_number (vr_claim_id req) = Some n"
    and "submitted_code req \<noteq> []"
  shows
   "(get_claim d n = None \<longrightarrow>
       verify_collection u req rnd now d = (Failure 404 ''Claim not found'', d))
  \<and> (get_claim d n = Some cl \<and> get_meal d (claim_meal cl) = Some m \<longrightarrow>
       (provider m \<noteq> user_pk u \<longrightarrow>
          verify_collection u req rnd now d
            = (Failure 403 ''You can only verify collections for your own meals'', d))
     \<and> (provider m = user_pk u \<and> status cl = Collected \<longrightarrow>
          verify_collection u req rnd now d
            = (Failure 400 ''This meal has already been collected'', d))
     \<and> (provider m = user_pk u \<and> status cl = Cancelled \<longrightarrow>
          verify_collection u req rnd now d
            = (Failure 400 ''This claim has been cancelled'', d))
     \<and> (provider m = user_pk u \<and> status cl \<noteq> Collected \<and> status cl \<noteq> Cancelled
          \<and> confirmation_code cl = Some cc
          \<and> list_ex (claim_conflict cl) (db_claims d) = False \<longrightarrow>
          (if submitted_code req = cc \<or> submitted_code req = take 4 cc
              \<or> submitted_code req = take 4 (filter py_isdigit cc)
           then verify_collection u req rnd now d
             = (Success 200 (cl\<lparr>status := Collected, collected_at := Some now,
                               claim_updated_at := Some now\<rparr>),
                d\<lparr>db_claims := map (\<lambda>r. if claim_pk r = Some n
                     then cl\<lparr>status := Collected, collected_at := Some now,
                            claim_updated_at := Some now\<rparr> else r) (db_claims d)\<rparr>)
           else verify_collection u req rnd now d
             = (Failure 400 ''Invalid code. Please check and try again.'', d))))"
proof -
  have nf: "verify_collection u req rnd now d = (Failure 404 ''Claim not found'', d)"
    if "get_claim d n = None"
    using assms that by (simp add: verify_collection_def Let_def)
  have found: "verify_collection u req rnd now d =
      (if provider m \<noteq> user_pk u
       then (Failure 403 ''You can only verify collections for your own meals'', d)
       else if status cl = Collected
       then (Failure 400 ''This meal has already been collected'', d)
       else if status cl = Cancelled
       then (Failure 400 ''This claim has been cancelled'', d)
       else (case confirmation_code cl of
               None \<Rightarrow>
                 (Failure 500 ''An unexpected error occurred while verifying collection'', d)
             | Some cc \<Rightarrow>
                 if submitted_code req = cc \<or> submitted_code req = take 4 cc
                    \<or> submitted_code req = take 4 (filter py_isdigit cc)
                 then (case claim_save rnd now
                              (cl\<lparr>status := Collected, collected_at := Some now\<rparr>) d of
                         Inl _ \<Rightarrow>
                           (Failure 500
                             ''An unexpected error occurred while verifying collection'', d)
                       | Inr (claim', d') \<Rightarrow> (Success 200 claim', d'))
                 else (Failure 400 ''Invalid code. Please check and try again.'', d)))"
    if "get_claim d n = Some cl" "get_meal d (claim_meal cl) = Some m"
    using assms that by (auto simp add: verify_collection_def Let_def split: option.splits)
  show ?thesis
  proof (intro conjI impI)
    assume "get_claim d n = None"
    then show "verify_collection u req rnd now d = (Failure 404 ''Claim not found'', d)"
      by (rule nf)
  next
    assume a: "get_claim d n = Some cl \<and> get_meal d (claim_meal cl) = Some m"
      and "provider m \<noteq> user_pk u"
    then show "verify_collection u req rnd now d
            = (Failure 403 ''You can only verify collections for your own meals'', d)"
      using found by simp
  next
    assume a: "get_claim d n = Some cl \<and> get_meal d (claim_meal cl) = Some m"
      and "provider m = user_pk u \<and> status cl = Collected"
    then show "verify_collection u req rnd now d
            = (Failure 400 ''This meal has already been collected'', d)"
      using found by simp
  next
    assume a: "get_claim d n = Some cl \<and> get_meal d (claim_meal cl) = Some m"
      and "provider m = user_pk u \<and> status cl = Cancelled"
    then show "verify_collection u req rnd now d
            = (Failure 400 ''This claim has been cancelled'', d)"
      using found by simp
  next
    assume a: "get_claim d n = Some cl \<and> get_meal d (claim_meal cl) = Some m"
      and b: "provider m = user_pk u \<and> status cl \<noteq> Collected \<and> status cl \<noteq> Cancelled
          \<and> confirmation_code cl = Some cc
          \<and> list_ex (claim_conflict cl) (db_claims d) = False"
    have sv: "claim_save rnd now (cl\<lparr>status := Collected, collected_at := Some now\<rparr>) d =
     Inr (cl\<lparr>status := Collected, collected_at := Some now, claim_updated_at := Some now\<rparr>,
          d\<lparr>db_claims := map (\<lambda>r. if claim_pk r = Some n
               then cl\<lparr>status := Collected, collected_at := Some now,
                      claim_updated_at := Some now\<rparr> else r) (db_claims d)\<rparr>)"
      using a b by (intro claim_save_collect) simp_all
    show "if submitted_code req = cc \<or> submitted_code req = take 4 cc
              \<or> submitted_code req = take 4 (filter py_isdigit cc)
           then verify_collection u req rnd now d
             = (Success 200 (cl\<lparr>status := Collected, collected_at := Some now,
                               claim_updated_at := Some now\<rparr>),
                d\<lparr>db_claims := map (\<lambda>r. if claim_pk r = Some n
                     then cl\<lparr>status := Collected, collected_at := Some now,
                            claim_updated_at := Some now\<rparr> else r) (db_claims d)\<rparr>)
           else verify_collection u req rnd now d
             = (Failure 400 ''Invalid code. Please check and try again.'', d)"
      using found a b sv by simp
  qed
qed

lemmas verify_eval_defs = verify_collection_def submitted_code_def py_strip_def py_upper_def
  py_isspace_def py_isdigit_def ascii_lowercase_def ascii_uppercase_def digits_def
  id_falsy_def id_number_def claim_save_def claim_super_save_def claim_conflict_def
  get_claim_def get_meal_def str_truthy_def confirmed_claim_def new_claim_def
  mumbai_meal_def Let_def

text \<open>
  Two requests on which the statement without normalisation and without the request
  checks fails: a lower-case code that equals none of the three forms is accepted, and
  an unknown claim id sent with a blank code is answered with
  \<open>Verification code is required\<close>, not with not-found.
\<close>

theorem verify_collection_counterexample:
  "''ab12'' \<noteq> ''AB12CD34'' \<and> ''ab12'' \<noteq> take 4 ''AB12CD34''
   \<and> ''ab12'' \<noteq> take 4 (filter py_isdigit ''AB12CD34'')
   \<and> confirmation_code confirmed_claim = Some ''AB12CD34''
   \<and> verify_collection provider_user
        \<lparr> vr_claim_id = Id_int 1, vr_otp = Some ''ab12'', vr_code = None \<rparr>
        (\<lambda>i. i) 2000 claimed_db
     = (Success 200 (confirmed_claim\<lparr>status := Collected, collected_at := Some 2000,
           claim_updated_at := Some 2000\<rparr>),
        claimed_db\<lparr>db_claims := [confirmed_claim\<lparr>status := Collected,
           collected_at := Some 2000, claim_updated_at := Some 2000\<rparr>]\<rparr>)
   \<and> get_claim claimed_db 99 = None
   \<and> verify_collection provider_user
        \<lparr> vr_claim_id = Id_int 99, vr_otp = None, vr_code = Some ''  '' \<rparr>
        (\<lambda>i. i) 2000 claimed_db
     = (Failure 400 ''Verification code is required'', claimed_db)"
  by (simp add: verify_eval_defs claimed_db_def provider_user_def)


theorem verify_collection_outcome_witness:
  "verify_collection provider_user
        \<lparr> vr_claim_id = Id_int 1, vr_otp = Some ''1234'', vr_code = None \<rparr>
        (\<lambda>i. i) 2000 claimed_db
     = (Success 200 (confirmed_claim\<lparr>status := Collected, collected_at := Some 2000,
           claim_updated_at := Some 2000\<rparr>),
        claimed_db\<lparr>db_claims := [confirmed_claim\<lparr>status := Collected,
           collected_at := Some 2000, claim_updated_at := Some 2000\<rparr>]\<rparr>)"
proof -
  let ?req = "\<lparr> vr_claim_id = Id_int 1, vr_otp = Some ''1234'', vr_code = None \<rparr>"
  have code: "submitted_code ?req = ''1234''"
    by (simp add: submitted_code_def py_strip_def py_upper_def py_isspace_def str_truthy_def
        ascii_lowercase_def ascii_uppercase_def)
  have pre: "id_falsy (vr_claim_id ?req) = False" "id_number (vr_claim_id ?req) = Some 1"
    "submitted_code ?req \<noteq> []"
    by (simp_all add: code id_falsy_def id_number_def)
  have row: "get_claim claimed_db 1 = Some confirmed_claim
      \<and> get_meal claimed_db (claim_meal confirmed_claim) = Some (mumbai_meal\<lparr>quantity := 2\<rparr>)"
    by (simp add: get_claim_def get_meal_def claimed_db_def confirmed_claim_def new_claim_def
        mumbai_meal_def)
  have ok: "provider (mumbai_meal\<lparr>quantity := 2\<rparr>) = user_pk provider_user
      \<and> status confirmed_claim \<noteq> Collected \<and> status confirmed_claim \<noteq> Cancelled
      \<and> confirmation_code confirmed_claim = Some ''AB12CD34''
      \<and> list_ex (claim_conflict confirmed_claim) (db_claims claimed_db) = False"
    by (simp add: mumbai_meal_def provider_user_def confirmed_claim_def new_claim_def
        claimed_db_def claim_conflict_def)
  have digits: "take 4 (filter py_isdigit ''AB12CD34'') = ''1234''"
    by (simp add: py_isdigit_def digits_def)
  have matches: "submitted_code ?req = ''AB12CD34'' \<or> submitted_code ?req = take 4 ''AB12CD34''
      \<or> submitted_code ?req = take 4 (filter py_isdigit ''AB12CD34'')"
    unfolding code digits by simp
  note outcome = verify_collection_outcome [OF pre, where d = claimed_db
      and cl = confirmed_claim and m = "mumbai_meal\<lparr>quantity := 2\<rparr>" and u = provider_user
      and cc = "''AB12CD34''" and rnd = "\<lambda>i. i" and now = 2000]
  from outcome row ok
  have "if submitted_code ?req = ''AB12CD34'' \<or> submitted_code ?req = take 4 ''AB12CD34''
           \<or> submitted_code ?req = take 4 (filter py_isdigit ''AB12CD34'')
        then verify_collection provider_user ?req (\<lambda>i. i) 2000 claimed_db
          = (Success 200 (confirmed_claim\<lparr>status := Collected, collected_at := Some 2000,
               claim_updated_at := Some 2000\<rparr>),
             claimed_db\<lparr>db_claims := map (\<lambda>r. if claim_pk r = Some 1
                 then confirmed_claim\<lparr>status := Collected, collected_at := Some 2000,
                        claim_updated_at := Some 2000\<rparr> else r) (db_claims claimed_db)\<rparr>)
        else verify_collection provider_user ?req (\<lambda>i. i) 2000 claimed_db
          = (Failure 400 ''Invalid code. Please check and try again.'', claimed_db)"
    by blast
  with matches
  have "verify_collection provider_user ?req (\<lambda>i. i) 2000 claimed_db
          = (Success 200 (confirmed_claim\<lparr>status := Collected, collected_at := Some 2000,
               claim_updated_at := Some 2000\<rparr>),
             claimed_db\<lparr>db_claims := map (\<lambda>r. if claim_pk r = Some 1
                 then confirmed_claim\<lparr>status := Collected, collected_at := Some 2000,
                        claim_updated_at := Some 2000\<rparr> else r) (db_claims claimed_db)\<rparr>)"
    by (simp only: if_True)
  moreover have "claim_pk confirmed_claim = Some 1"
    by (simp add: confirmed_claim_def)
  ultimately show ?thesis
    by (simp add: claimed_db_def)
qed


end
